theory Spec2Isabelle
  imports Main
begin

chapter \<open>Build controller factory, token storage and diagnostics runner\<close>

text \<open>
  A shallow embedding of the retry policies, list-watchers, delete handlers and strategy
  dispatch of \<^verbatim>\<open>pkg/build/controller/factory/factory.go\<close>, of \<^verbatim>\<open>NewREST\<close> in
  \<^verbatim>\<open>pkg/oauth/registry/oauthauthorizetoken/etcd/etcd.go\<close> and of
  \<^verbatim>\<open>DiagnosticsOptions.Run\<close>. Go pointers that may be nil are options, Go's
  \<^verbatim>\<open>(value, error)\<close> results are pairs whose second component is an optional error,
  calls to collaborators behind interfaces are functions on an explicit world, and a panic is
  a value of the result type.
\<close>

section \<open>Definitions\<close>

subsection \<open>Time\<close>

text \<open>
  An instant is a number of nanoseconds since the epoch. A \<^verbatim>\<open>time.Duration\<close> is an
  \<^verbatim>\<open>int64\<close> count of nanoseconds; \<^verbatim>\<open>Time.Sub\<close> saturates at the ends of that range,
  and \<^verbatim>\<open>time.Since(t)\<close> is \<^verbatim>\<open>time.Now().Sub(t)\<close>.
\<close>

type_synonym Time = int
type_synonym Duration = int

definition maxDuration :: Duration where
  "maxDuration = 2 ^ 63 - 1"

definition minDuration :: Duration where
  "minDuration = - (2 ^ 63)"

definition time_Sub :: "Time \<Rightarrow> Time \<Rightarrow> Duration" where
  "time_Sub t u =
     (if t - u > maxDuration then maxDuration
      else if t - u < minDuration then minDuration
      else t - u)"

definition time_Since :: "Time \<Rightarrow> Time \<Rightarrow> Duration" where
  "time_Since now t = time_Sub now t"

definition Second :: Duration where
  "Second = 1000000000"

definition Minute :: Duration where
  "Minute = 60 * Second"

subsection \<open>Retry state and the count-bounded policy\<close>

text \<open>
  \<^verbatim>\<open>controller.Retry\<close>: the per-item retry state handed to a \<^verbatim>\<open>RetryFunc\<close>. \<^verbatim>\<open>Count\<close> is
  a Go \<^verbatim>\<open>int\<close>, read here as its integer value.
\<close>

record Retry =
  Count :: int
  StartTimestamp :: Time

definition maxRetries :: int where
  "maxRetries = 60"

text \<open>
  \<^verbatim>\<open>retryFunc(kind, isFatal)\<close> returns the policy closure; the model applies it at once.
  \<^verbatim>\<open>isFatal\<close> may be nil (\<open>None\<close>). The second component of the result lists the errors
  passed to \<^verbatim>\<open>kutil.HandleError\<close>, which only the two give-up branches call. The key
  computed by \<^verbatim>\<open>cache.MetaNamespaceKeyFunc\<close> and \<^verbatim>\<open>kind\<close> feed the \<^verbatim>\<open>glog\<close> lines only.
\<close>

definition retryFunc ::
  "string \<Rightarrow> ('e \<Rightarrow> bool) option \<Rightarrow> 'o \<Rightarrow> 'e \<Rightarrow> Retry \<Rightarrow> bool \<times> 'e list" where
  "retryFunc kind isFatal obj err retries =
     (if (case isFatal of None \<Rightarrow> False | Some f \<Rightarrow> f err) then (False, [err])
      else if Count retries > maxRetries then (False, [err])
      else (True, []))"

text \<open>
  The fatal predicate of \<^verbatim>\<open>ImageChangeControllerFactory.Create\<close>: a type assertion on the
  error. Errors are split here into the fatal kind and every other.
\<close>

datatype controller_error =
    ImageChangeControllerFatalError string
  | OtherError string

definition imageChangeIsFatal :: "controller_error \<Rightarrow> bool" where
  "imageChangeIsFatal err =
     (case err of ImageChangeControllerFatalError _ \<Rightarrow> True | OtherError _ \<Rightarrow> False)"

text \<open>
  Modelled from the spec: the RetryManager's bookkeeping of the \<^verbatim>\<open>Retry\<close> state (the
  controller package is not among the sources). The state of a key is created on its first
  failure, with no retry counted yet, and handed to the policy; when the policy indicates
  retry the count is incremented and the state kept, and when it gives up the state is
  discarded.
\<close>

definition RetryManager_Retry ::
  "(Retry \<Rightarrow> bool) \<Rightarrow> Time \<Rightarrow> Retry option \<Rightarrow> bool \<times> Retry option" where
  "RetryManager_Retry shouldRetry now st =
     (let tries = (case st of None \<Rightarrow> \<lparr>Count = 0, StartTimestamp = now\<rparr> | Some r \<Rightarrow> r)
      in if shouldRetry tries then (True, Some (tries\<lparr>Count := Count tries + 1\<rparr>))
         else (False, None))"

text \<open>
  The decisions taken over at most \<open>n\<close> consecutive failed attempts of one key: the episode
  ends at the first refusal.
\<close>

fun failing_episode :: "(Retry \<Rightarrow> bool) \<Rightarrow> Time \<Rightarrow> nat \<Rightarrow> Retry option \<Rightarrow> bool list" where
  "failing_episode shouldRetry now 0 st = []"
| "failing_episode shouldRetry now (Suc n) st =
     (case RetryManager_Retry shouldRetry now st of
        (True, st') \<Rightarrow> True # failing_episode shouldRetry now n st'
      | (False, st') \<Rightarrow> [False])"

subsection \<open>The key lister and getter of the delete queues\<close>

text \<open>
  \<^verbatim>\<open>keyListerGetter\<close>: \<^verbatim>\<open>ListKeys\<close> returns an empty slice, and \<^verbatim>\<open>GetByKey\<close> returns the
  triple of the empty string, \<^verbatim>\<open>true\<close> and a nil error for every key.
\<close>

definition keyListerGetter_ListKeys :: "string list" where
  "keyListerGetter_ListKeys = []"

definition keyListerGetter_GetByKey :: "string \<Rightarrow> string \<times> bool \<times> 'e option" where
  "keyListerGetter_GetByKey key = ('''', True, None)"

datatype DeltaType = Added | Updated | Deleted | Sync

record 'o Delta =
  Type :: DeltaType
  Object :: 'o

text \<open>
  Modelled from the spec: the DeltaFIFO store (the cache package is not among the sources).
  The value of a key is its ordered list of deltas; an action appends a delta to the key's
  list and, if the list is new, enqueues the key at the tail. A deletion is queued when the
  key is known: when a key getter is supplied its answer decides that, otherwise the key is
  known when deltas are pending for it.
\<close>

record 'o DeltaFIFO =
  items :: "string \<rightharpoonup> 'o Delta list"
  queue :: "string list"

definition queueAction :: "DeltaType \<Rightarrow> string \<Rightarrow> 'o \<Rightarrow> 'o DeltaFIFO \<Rightarrow> 'o DeltaFIFO" where
  "queueAction ty key obj f =
     (case items f key of
        None \<Rightarrow> f\<lparr>items := (items f)(key \<mapsto> [\<lparr>Type = ty, Object = obj\<rparr>]),
                   queue := queue f @ [key]\<rparr>
      | Some ds \<Rightarrow> f\<lparr>items := (items f)(key \<mapsto> ds @ [\<lparr>Type = ty, Object = obj\<rparr>])\<rparr>)"

definition DeltaFIFO_Delete ::
  "(string \<Rightarrow> 'i \<times> bool \<times> 'e option) option \<Rightarrow> string \<Rightarrow> 'o \<Rightarrow> 'o DeltaFIFO \<Rightarrow> 'o DeltaFIFO" where
  "DeltaFIFO_Delete knownObjects key obj f =
     (let known = (case knownObjects of
                     None \<Rightarrow> items f key \<noteq> None
                   | Some getByKey \<Rightarrow>
                       (case getByKey key of (_, exists, err) \<Rightarrow> \<not> (err = None \<and> \<not> exists)))
      in if known then queueAction Deleted key obj f else f)"

subsection \<open>API objects\<close>

text \<open>
  The fields of the API types that the modelled functions read or write. A Go map is a
  partial function; reading a missing key (or a nil map) yields the empty string.
  \<^verbatim>\<open>Annotations\<close> keeps the difference between a nil map and an empty one, which
  \<^verbatim>\<open>CreateBuildPod\<close> tests.
\<close>

record ObjectMeta =
  Name :: string
  Namespace :: string
  ResourceVersion :: string
  Labels :: "string \<rightharpoonup> string"
  Annotations :: "(string \<rightharpoonup> string) option"

definition map_index :: "(string \<rightharpoonup> string) \<Rightarrow> string \<Rightarrow> string" where
  "map_index m k = (case m k of None \<Rightarrow> '''' | Some v \<Rightarrow> v)"

text \<open>
  The label and the annotation that tie a pod to its build; both constants are declared in
  the build API package.
\<close>

definition BuildLabel :: string where
  "BuildLabel = ''openshift.io/build.name''"

definition BuildAnnotation :: string where
  "BuildAnnotation = ''openshift.io/build.name''"

text \<open>
  \<^verbatim>\<open>BuildPhase\<close> and \<^verbatim>\<open>StatusReason\<close> are string types; their zero value is the empty
  string. The constants are declared in the build API package.
\<close>

type_synonym BuildPhase = string

definition BuildPhaseNew :: BuildPhase where
  "BuildPhaseNew = ''New''"

definition BuildPhaseFailed :: BuildPhase where
  "BuildPhaseFailed = ''Failed''"

definition StatusReasonExceededRetryTimeout :: string where
  "StatusReasonExceededRetryTimeout = ''ExceededRetryTimeout''"

record BuildStatus =
  Phase :: BuildPhase
  Reason :: string
  Message :: string
  CompletionTimestamp :: "Time option"

text \<open>
  The three strategy fields of \<^verbatim>\<open>build.Spec.Strategy\<close> are pointers; only whether each is
  nil is read here, so the structs they point to carry no fields in the model.
\<close>

datatype api_DockerBuildStrategy = api_DockerBuildStrategy
datatype api_SourceBuildStrategy = api_SourceBuildStrategy
datatype api_CustomBuildStrategy = api_CustomBuildStrategy

record BuildStrategy =
  DockerStrategy :: "api_DockerBuildStrategy option"
  SourceStrategy :: "api_SourceBuildStrategy option"
  CustomStrategy :: "api_CustomBuildStrategy option"

record BuildSpec =
  Strategy :: BuildStrategy

record Build =
  BuildMeta :: ObjectMeta
  Spec :: BuildSpec
  Status :: BuildStatus

record Pod =
  PodMeta :: ObjectMeta

text \<open>
  API errors for concrete runs: \<^verbatim>\<open>kerrors.IsNotFound\<close> holds of the first kind only.
\<close>

datatype api_error = StatusNotFound string | StatusInternalError string

definition IsNotFound :: "api_error \<Rightarrow> bool" where
  "IsNotFound err = (case err of StatusNotFound _ \<Rightarrow> True | StatusInternalError _ \<Rightarrow> False)"

subsection \<open>The duration-bounded policy\<close>

text \<open>
  \<^verbatim>\<open>limitedLogAndRetry(buildupdater, maxTimeout)\<close>, applied to a build, an error and the
  retry state. The build is mutated in place, so the build as left by the call is part of
  the result, with the errors passed to \<^verbatim>\<open>kutil.HandleError\<close> and the world after the call
  to \<^verbatim>\<open>buildupdater.Update\<close>. The clock is read twice: \<open>now\<close> by \<^verbatim>\<open>time.Since\<close> and
  \<open>now'\<close> by \<^verbatim>\<open>unversioned.Now()\<close>. \<^verbatim>\<open>kerrors.IsNotFound\<close> and \<^verbatim>\<open>errors.ErrorToSentence\<close>
  are library functions outside the sources and are parameters.
\<close>

type_synonym ('u, 'w) BuildUpdater = "string \<Rightarrow> Build \<Rightarrow> 'w \<Rightarrow> 'u option \<times> 'w"

record ('e, 'w) RetryOutcome =
  retry :: bool
  build_after :: Build
  handled :: "'e list"
  world_after :: 'w

definition failedBuild :: "('e \<Rightarrow> string) \<Rightarrow> Time \<Rightarrow> Build \<Rightarrow> 'e \<Rightarrow> Build" where
  "failedBuild errorToSentence now' build err =
     build\<lparr>Status := (Status build)\<lparr>
       Phase := BuildPhaseFailed,
       Reason := StatusReasonExceededRetryTimeout,
       Message := errorToSentence err,
       CompletionTimestamp := Some now'\<rparr>\<rparr>"

definition limitedLogAndRetry ::
  "('u \<Rightarrow> bool) \<Rightarrow> ('e \<Rightarrow> string) \<Rightarrow> ('u, 'w) BuildUpdater \<Rightarrow> Duration \<Rightarrow>
   Time \<Rightarrow> Time \<Rightarrow> Build \<Rightarrow> 'e \<Rightarrow> Retry \<Rightarrow> 'w \<Rightarrow> ('e, 'w) RetryOutcome" where
  "limitedLogAndRetry isNotFound errorToSentence buildupdater maxTimeout now now' build err retries w =
     (if time_Since now (StartTimestamp retries) < maxTimeout
      then \<lparr>retry = True, build_after = build, handled = [], world_after = w\<rparr>
      else
        let build' = failedBuild errorToSentence now' build err in
        (case buildupdater (Namespace (BuildMeta build')) build' w of
           (Some uerr, w') \<Rightarrow>
             \<lparr>retry = \<not> isNotFound uerr, build_after = build', handled = [err], world_after = w'\<rparr>
         | (None, w') \<Rightarrow>
             \<lparr>retry = False, build_after = build', handled = [err], world_after = w'\<rparr>))"

text \<open>The window \<^verbatim>\<open>BuildControllerFactory.Create\<close> configures: \<^verbatim>\<open>30*time.Minute\<close>.\<close>

definition buildRetryTimeout :: Duration where
  "buildRetryTimeout = 30 * Minute"

text \<open>
  Build updaters for concrete runs. The world of \<open>storeUpdater\<close> is the stored builds by
  namespace and name: it replaces a stored build and answers not-found for a build that is
  not stored. The world of the other two counts the calls: \<open>unavailableUpdater\<close> fails
  every update with an internal error, \<open>flakyUpdater\<close> only the first.
\<close>

definition storeUpdater :: "(api_error, string \<times> string \<rightharpoonup> Build) BuildUpdater" where
  "storeUpdater namespace build w =
     (case w (namespace, Name (BuildMeta build)) of
        None \<Rightarrow> (Some (StatusNotFound (Name (BuildMeta build))), w)
      | Some _ \<Rightarrow> (None, w((namespace, Name (BuildMeta build)) \<mapsto> build)))"

definition unavailableUpdater :: "(api_error, nat) BuildUpdater" where
  "unavailableUpdater namespace build w = (Some (StatusInternalError ''unavailable''), Suc w)"

definition flakyUpdater :: "(api_error, nat) BuildUpdater" where
  "flakyUpdater namespace build w =
     (if w = 0 then Some (StatusInternalError ''unavailable'') else None, Suc w)"

definition newBuild :: "string \<Rightarrow> string \<Rightarrow> BuildStrategy \<Rightarrow> Build" where
  "newBuild namespace name strategy =
     \<lparr>BuildMeta = \<lparr>Name = name, Namespace = namespace, ResourceVersion = ''1'',
                   Labels = Map.empty, Annotations = None\<rparr>,
      Spec = \<lparr>Strategy = strategy\<rparr>,
      Status = \<lparr>Phase = BuildPhaseNew, Reason = '''', Message = '''',
                CompletionTimestamp = None\<rparr>\<rparr>"

definition dockerOnly :: BuildStrategy where
  "dockerOnly = \<lparr>DockerStrategy = Some api_DockerBuildStrategy, SourceStrategy = None,
                 CustomStrategy = None\<rparr>"

definition error_text :: "controller_error \<Rightarrow> string" where
  "error_text err = (case err of ImageChangeControllerFatalError m \<Rightarrow> m | OtherError m \<Rightarrow> m)"

definition storedWorld :: "string \<times> string \<rightharpoonup> Build" where
  "storedWorld = [(''ns'', ''b'') \<mapsto> newBuild ''ns'' ''b'' dockerOnly]"

subsection \<open>Strategy dispatch\<close>

text \<open>
  \<^verbatim>\<open>typeBasedFactoryStrategy\<close> holds the three pod-creating strategies. Each is a
  collaborator behind a pointer, modelled as a function from the build and the world to its
  \<^verbatim>\<open>(pod, err)\<close> result and the world it leaves, so that a call shows in the world.
\<close>

type_synonym ('e, 'w) PodCreator = "Build \<Rightarrow> 'w \<Rightarrow> (Pod option \<times> 'e option) \<times> 'w"

record ('e, 'w) typeBasedFactoryStrategy =
  DockerBuildStrategy :: "('e, 'w) PodCreator"
  SourceBuildStrategy :: "('e, 'w) PodCreator"
  CustomBuildStrategy :: "('e, 'w) PodCreator"

text \<open>
  The error of \<^verbatim>\<open>CreateBuildPod\<close> is the error of the strategy called, or the error that
  \<^verbatim>\<open>fmt.Errorf\<close> builds in the default branch.
\<close>

datatype 'e create_error = StrategyError 'e | Errorf string

definition noStrategyMessage :: "Build \<Rightarrow> string" where
  "noStrategyMessage build =
     ''no supported build strategy defined for Build '' @ Namespace (BuildMeta build) @ ''/'' @
     Name (BuildMeta build)"

text \<open>The tail of \<^verbatim>\<open>CreateBuildPod\<close>: a pod that is not nil gets the build annotation.\<close>

definition annotatePod :: "Build \<Rightarrow> Pod option \<Rightarrow> Pod option" where
  "annotatePod build pod =
     (case pod of
        None \<Rightarrow> None
      | Some p \<Rightarrow>
          let annotations = (case Annotations (PodMeta p) of None \<Rightarrow> Map.empty | Some m \<Rightarrow> m)
          in Some (p\<lparr>PodMeta := (PodMeta p)\<lparr>Annotations :=
               Some (annotations(BuildAnnotation \<mapsto> Name (BuildMeta build)))\<rparr>\<rparr>))"

definition CreateBuildPod ::
  "('e, 'w) typeBasedFactoryStrategy \<Rightarrow> Build \<Rightarrow> 'w \<Rightarrow>
   (Pod option \<times> 'e create_error option) \<times> 'w" where
  "CreateBuildPod f build w =
     (if DockerStrategy (Strategy (Spec build)) \<noteq> None then
        (case DockerBuildStrategy f build w of
           ((pod, err), w') \<Rightarrow> ((annotatePod build pod, map_option StrategyError err), w'))
      else if SourceStrategy (Strategy (Spec build)) \<noteq> None then
        (case SourceBuildStrategy f build w of
           ((pod, err), w') \<Rightarrow> ((annotatePod build pod, map_option StrategyError err), w'))
      else if CustomStrategy (Strategy (Spec build)) \<noteq> None then
        (case CustomBuildStrategy f build w of
           ((pod, err), w') \<Rightarrow> ((annotatePod build pod, map_option StrategyError err), w'))
      else ((None, Some (Errorf (noStrategyMessage build))), w))"

text \<open>
  Strategies for concrete runs: each returns a pod named after the build and records its
  own name in the world.
\<close>

definition newPod :: "string \<Rightarrow> string \<Rightarrow> Pod" where
  "newPod namespace name =
     \<lparr>PodMeta = \<lparr>Name = name, Namespace = namespace, ResourceVersion = ''1'',
                 Labels = Map.empty, Annotations = None\<rparr>\<rparr>"

definition recordingCreator :: "string \<Rightarrow> (string, string list) PodCreator" where
  "recordingCreator tag build w =
     ((Some (newPod (Namespace (BuildMeta build)) (Name (BuildMeta build) @ ''-build'')), None),
      w @ [tag])"

definition recordingStrategies :: "(string, string list) typeBasedFactoryStrategy" where
  "recordingStrategies =
     \<lparr>DockerBuildStrategy = recordingCreator ''docker'',
      SourceBuildStrategy = recordingCreator ''source'',
      CustomBuildStrategy = recordingCreator ''custom''\<rparr>"

definition sourceOnly :: BuildStrategy where
  "sourceOnly = \<lparr>DockerStrategy = None, SourceStrategy = Some api_SourceBuildStrategy,
                 CustomStrategy = None\<rparr>"

definition customOnly :: BuildStrategy where
  "customOnly = \<lparr>DockerStrategy = None, SourceStrategy = None,
                 CustomStrategy = Some api_CustomBuildStrategy\<rparr>"

definition noStrategy :: BuildStrategy where
  "noStrategy = \<lparr>DockerStrategy = None, SourceStrategy = None, CustomStrategy = None\<rparr>"

subsection \<open>The handlers of the delete controllers\<close>

text \<open>
  What a delta queue hands to \<^verbatim>\<open>Handle\<close> is an \<^verbatim>\<open>interface{}\<close>: the handlers assert that it
  is a \<^verbatim>\<open>cache.Deltas\<close> and that the object of the delta they act on is a build (a pod). A
  failed assertion panics, so the dynamic type is part of the model and a panic is a result.
  A panic carries the value passed to \<^verbatim>\<open>panic\<close>, as \<^verbatim>\<open>%v\<close> prints it; \<open>None\<close> is the
  nil value of \<^verbatim>\<open>panic(nil)\<close>, for which \<^verbatim>\<open>recover()\<close> returns nil.
\<close>

datatype api_Object = BuildObject Build | PodObject Pod | UnknownObject string

datatype queue_Object = DeltasObject "api_Object Delta list" | PlainObject api_Object

datatype 'a result = Returned 'a | Panicked "string option"

type_synonym ('a, 'e, 'w) Handler = "'a \<Rightarrow> 'w \<Rightarrow> 'e option \<times> 'w"

text \<open>The loops over the deltas, in order, leaving at the first \<open>Deleted\<close> delta.\<close>

fun buildDeltas_loop ::
  "(Build, 'e, 'w) Handler \<Rightarrow> api_Object Delta list \<Rightarrow> 'w \<Rightarrow> 'e option result \<times> 'w" where
  "buildDeltas_loop HandleBuildDeletion [] w = (Returned None, w)"
| "buildDeltas_loop HandleBuildDeletion (delta # deltas) w =
     (if Type delta = Deleted then
        (case Object delta of
           BuildObject build \<Rightarrow>
             (case HandleBuildDeletion build w of (err, w') \<Rightarrow> (Returned err, w'))
         | _ \<Rightarrow> (Panicked (Some ''interface conversion: not *api.Build''), w))
      else buildDeltas_loop HandleBuildDeletion deltas w)"

definition BuildControllerFactory_CreateDeleteController_Handle ::
  "(Build, 'e, 'w) Handler \<Rightarrow> queue_Object \<Rightarrow> 'w \<Rightarrow> 'e option result \<times> 'w" where
  "BuildControllerFactory_CreateDeleteController_Handle HandleBuildDeletion obj w =
     (case obj of
        DeltasObject deltas \<Rightarrow> buildDeltas_loop HandleBuildDeletion deltas w
      | PlainObject _ \<Rightarrow> (Panicked (Some ''interface conversion: not cache.Deltas''), w))"

fun podDeltas_loop ::
  "(Pod, 'e, 'w) Handler \<Rightarrow> api_Object Delta list \<Rightarrow> 'w \<Rightarrow> 'e option result \<times> 'w" where
  "podDeltas_loop HandleBuildPodDeletion [] w = (Returned None, w)"
| "podDeltas_loop HandleBuildPodDeletion (delta # deltas) w =
     (if Type delta = Deleted then
        (case Object delta of
           PodObject pod \<Rightarrow>
             (case HandleBuildPodDeletion pod w of (err, w') \<Rightarrow> (Returned err, w'))
         | _ \<Rightarrow> (Panicked (Some ''interface conversion: not *api.Pod''), w))
      else podDeltas_loop HandleBuildPodDeletion deltas w)"

definition BuildPodControllerFactory_CreateDeleteController_Handle ::
  "(Pod, 'e, 'w) Handler \<Rightarrow> queue_Object \<Rightarrow> 'w \<Rightarrow> 'e option result \<times> 'w" where
  "BuildPodControllerFactory_CreateDeleteController_Handle HandleBuildPodDeletion obj w =
     (case obj of
        DeltasObject deltas \<Rightarrow> podDeltas_loop HandleBuildPodDeletion deltas w
      | PlainObject _ \<Rightarrow> (Panicked (Some ''interface conversion: not cache.Deltas''), w))"

text \<open>
  Deletion handlers for concrete runs: they record the name of the object they are called
  with and return no error.
\<close>

definition recordBuildDeletion :: "(Build, string, string list) Handler" where
  "recordBuildDeletion build w = (None, w @ [Name (BuildMeta build)])"

definition recordPodDeletion :: "(Pod, string, string list) Handler" where
  "recordPodDeletion pod w = (None, w @ [Name (PodMeta pod)])"

subsection \<open>The list-watchers of the delete controllers\<close>

text \<open>
  The two clients are interfaces of other packages; the calls the list-watchers make are
  fields of a record. \<^verbatim>\<open>Get\<close> returns a pointer and an error, both kept, since the code
  tests each. \<^verbatim>\<open>labels.Parse\<close>, \<^verbatim>\<open>kerrors.IsNotFound\<close>, \<^verbatim>\<open>buildutil.IsBuildComplete\<close> and
  \<^verbatim>\<open>buildutil.GetBuildPodName\<close> are parameters. \<^verbatim>\<open>lw.store.Delete\<close> is a function on the
  world; its error is only logged.
\<close>

record ('e, 'sel) KubeClient =
  PodsList :: "'sel \<Rightarrow> 'e + Pod list"
  PodsGet :: "string \<Rightarrow> string \<Rightarrow> Pod option \<times> 'e option"

record 'e OSClient =
  BuildsList :: "'e + Build list"
  BuildsGet :: "string \<Rightarrow> string \<Rightarrow> Build option \<times> 'e option"

type_synonym ('d, 'w) StoreDelete = "api_Object \<Rightarrow> 'w \<Rightarrow> 'd option \<times> 'w"

definition listPods :: "(string \<Rightarrow> 'e + 'sel) \<Rightarrow> ('e, 'sel) KubeClient \<Rightarrow> 'e + Pod list" where
  "listPods labels_Parse client =
     (case labels_Parse BuildLabel of
        Inl err \<Rightarrow> Inl err
      | Inr sel \<Rightarrow>
          (case PodsList client sel of
             Inl err \<Rightarrow> Inl err
           | Inr listNew \<Rightarrow> Inr listNew))"

text \<open>The synthetic objects: only name and namespace are set, every other field is zero.\<close>

definition zeroObjectMeta :: ObjectMeta where
  "zeroObjectMeta =
     \<lparr>Name = '''', Namespace = '''', ResourceVersion = '''', Labels = Map.empty,
      Annotations = None\<rparr>"

definition deletedBuild :: "string \<Rightarrow> string \<Rightarrow> Build" where
  "deletedBuild buildName namespace =
     \<lparr>BuildMeta = zeroObjectMeta\<lparr>Name := buildName, Namespace := namespace\<rparr>,
      Spec = \<lparr>Strategy = \<lparr>DockerStrategy = None, SourceStrategy = None,
                            CustomStrategy = None\<rparr>\<rparr>,
      Status = \<lparr>Phase = '''', Reason = '''', Message = '''', CompletionTimestamp = None\<rparr>\<rparr>"

definition deletedPod :: "string \<Rightarrow> string \<Rightarrow> Pod" where
  "deletedPod podName namespace =
     \<lparr>PodMeta = zeroObjectMeta\<lparr>Name := podName, Namespace := namespace\<rparr>\<rparr>"

text \<open>
  The loop of \<^verbatim>\<open>buildDeleteLW.List\<close> over \<^verbatim>\<open>podList.Items\<close>. It returns the error of an
  early return, or \<open>None\<close> when it ran to the end of the list.
\<close>

fun buildDeleteLW_loop ::
  "('e \<Rightarrow> bool) \<Rightarrow> 'e OSClient \<Rightarrow> ('d, 'w) StoreDelete \<Rightarrow> Pod list \<Rightarrow> 'w \<Rightarrow> 'e option \<times> 'w" where
  "buildDeleteLW_loop isNotFound client storeDelete [] w = (None, w)"
| "buildDeleteLW_loop isNotFound client storeDelete (pod # pods) w =
     (let buildName = map_index (Labels (PodMeta pod)) BuildLabel in
      if length buildName = 0 then buildDeleteLW_loop isNotFound client storeDelete pods w
      else
        (case BuildsGet client (Namespace (PodMeta pod)) buildName of
           (build, err) \<Rightarrow>
             if (case err of None \<Rightarrow> False | Some e \<Rightarrow> \<not> isNotFound e) then (err, w)
             else
               let build' = (if (case err of None \<Rightarrow> False | Some e \<Rightarrow> isNotFound e)
                             then None else build)
               in if build' = None
                  then buildDeleteLW_loop isNotFound client storeDelete pods
                         (snd (storeDelete
                            (BuildObject (deletedBuild buildName (Namespace (PodMeta pod)))) w))
                  else buildDeleteLW_loop isNotFound client storeDelete pods w))"

definition buildDeleteLW_List ::
  "(string \<Rightarrow> 'e + 'sel) \<Rightarrow> ('e \<Rightarrow> bool) \<Rightarrow> ('e, 'sel) KubeClient \<Rightarrow> 'e OSClient \<Rightarrow>
   ('d, 'w) StoreDelete \<Rightarrow> 'w \<Rightarrow> ('e + Build list) \<times> 'w" where
  "buildDeleteLW_List labels_Parse isNotFound kubeClient client storeDelete w =
     (case listPods labels_Parse kubeClient of
        Inl err \<Rightarrow> (Inl err, w)
      | Inr podItems \<Rightarrow>
          (case buildDeleteLW_loop isNotFound client storeDelete podItems w of
             (Some err, w') \<Rightarrow> (Inl err, w')
           | (None, w') \<Rightarrow> (Inr [], w')))"

text \<open>
  The loop of \<^verbatim>\<open>buildPodDeleteLW.List\<close> over \<^verbatim>\<open>buildList.Items\<close>. When \<^verbatim>\<open>Get\<close> returns
  neither a pod nor an error, reading \<^verbatim>\<open>pod.Labels\<close> dereferences a nil pointer.
\<close>

fun buildPodDeleteLW_loop ::
  "('e \<Rightarrow> bool) \<Rightarrow> (Build \<Rightarrow> bool) \<Rightarrow> (Build \<Rightarrow> string) \<Rightarrow> ('e, 'sel) KubeClient \<Rightarrow>
   ('d, 'w) StoreDelete \<Rightarrow> Build list \<Rightarrow> 'w \<Rightarrow> 'e option result \<times> 'w" where
  "buildPodDeleteLW_loop isNotFound IsBuildComplete GetBuildPodName kubeClient storeDelete [] w =
     (Returned None, w)"
| "buildPodDeleteLW_loop isNotFound IsBuildComplete GetBuildPodName kubeClient storeDelete
     (build # builds) w =
     (if IsBuildComplete build
      then buildPodDeleteLW_loop isNotFound IsBuildComplete GetBuildPodName kubeClient
             storeDelete builds w
      else
        (case PodsGet kubeClient (Namespace (BuildMeta build)) (GetBuildPodName build) of
           (pod, err) \<Rightarrow>
             (case (case err of
                      Some e \<Rightarrow> if \<not> isNotFound e then Inl (Returned (Some e)) else Inr None
                    | None \<Rightarrow>
                        (case pod of
                           None \<Rightarrow> Inl (Panicked (Some ''nil pointer dereference''))
                         | Some p \<Rightarrow>
                             if map_index (Labels (PodMeta p)) BuildLabel \<noteq> Name (BuildMeta build)
                             then Inr None else Inr (Some p))) of
                Inl out \<Rightarrow> (out, w)
              | Inr pod' \<Rightarrow>
                  if pod' = None
                  then buildPodDeleteLW_loop isNotFound IsBuildComplete GetBuildPodName kubeClient
                         storeDelete builds
                         (snd (storeDelete
                            (PodObject (deletedPod (GetBuildPodName build)
                               (Namespace (BuildMeta build)))) w))
                  else buildPodDeleteLW_loop isNotFound IsBuildComplete GetBuildPodName kubeClient
                         storeDelete builds w)))"

definition buildPodDeleteLW_List ::
  "('e \<Rightarrow> bool) \<Rightarrow> (Build \<Rightarrow> bool) \<Rightarrow> (Build \<Rightarrow> string) \<Rightarrow> ('e, 'sel) KubeClient \<Rightarrow>
   'e OSClient \<Rightarrow> ('d, 'w) StoreDelete \<Rightarrow> 'w \<Rightarrow> ('e + Pod list) result \<times> 'w" where
  "buildPodDeleteLW_List isNotFound IsBuildComplete GetBuildPodName kubeClient client storeDelete w =
     (case BuildsList client of
        Inl err \<Rightarrow> (Returned (Inl err), w)
      | Inr buildItems \<Rightarrow>
          (case buildPodDeleteLW_loop isNotFound IsBuildComplete GetBuildPodName kubeClient
                  storeDelete buildItems w of
             (Returned (Some err), w') \<Rightarrow> (Returned (Inl err), w')
           | (Returned None, w') \<Rightarrow> (Returned (Inr []), w')
           | (Panicked msg, w') \<Rightarrow> (Panicked msg, w')))"

text \<open>
  The claim's words, as predicates. A pod's build is absent when the pod carries a build
  label and the lookup of that build answers not-found (or no build and no error); a build's
  pod is missing when the build is not complete and the lookup of its pod answers not-found,
  or finds a pod whose build label is not the build's name. A lookup fails when it returns an
  error other than not-found.
\<close>

definition buildLookupFails :: "('e \<Rightarrow> bool) \<Rightarrow> 'e OSClient \<Rightarrow> Pod \<Rightarrow> bool" where
  "buildLookupFails isNotFound client pod =
     (map_index (Labels (PodMeta pod)) BuildLabel \<noteq> '''' \<and>
      (case snd (BuildsGet client (Namespace (PodMeta pod))
                   (map_index (Labels (PodMeta pod)) BuildLabel)) of
         None \<Rightarrow> False | Some e \<Rightarrow> \<not> isNotFound e))"

definition buildAbsent :: "('e \<Rightarrow> bool) \<Rightarrow> 'e OSClient \<Rightarrow> Pod \<Rightarrow> bool" where
  "buildAbsent isNotFound client pod =
     (map_index (Labels (PodMeta pod)) BuildLabel \<noteq> '''' \<and>
      (case BuildsGet client (Namespace (PodMeta pod))
              (map_index (Labels (PodMeta pod)) BuildLabel) of
         (build, None) \<Rightarrow> build = None
       | (build, Some e) \<Rightarrow> isNotFound e))"

definition syntheticBuild :: "Pod \<Rightarrow> api_Object" where
  "syntheticBuild pod =
     BuildObject (deletedBuild (map_index (Labels (PodMeta pod)) BuildLabel)
       (Namespace (PodMeta pod)))"

definition podLookupFails ::
  "('e \<Rightarrow> bool) \<Rightarrow> (Build \<Rightarrow> bool) \<Rightarrow> (Build \<Rightarrow> string) \<Rightarrow> ('e, 'sel) KubeClient \<Rightarrow> Build \<Rightarrow> bool" where
  "podLookupFails isNotFound IsBuildComplete GetBuildPodName kubeClient build =
     (\<not> IsBuildComplete build \<and>
      (case PodsGet kubeClient (Namespace (BuildMeta build)) (GetBuildPodName build) of
         (pod, Some e) \<Rightarrow> \<not> isNotFound e
       | (pod, None) \<Rightarrow> False))"

definition podLookupEmpty ::
  "(Build \<Rightarrow> bool) \<Rightarrow> (Build \<Rightarrow> string) \<Rightarrow> ('e, 'sel) KubeClient \<Rightarrow> Build \<Rightarrow> bool" where
  "podLookupEmpty IsBuildComplete GetBuildPodName kubeClient build =
     (\<not> IsBuildComplete build \<and>
      PodsGet kubeClient (Namespace (BuildMeta build)) (GetBuildPodName build) = (None, None))"

definition podMissing ::
  "('e \<Rightarrow> bool) \<Rightarrow> (Build \<Rightarrow> bool) \<Rightarrow> (Build \<Rightarrow> string) \<Rightarrow> ('e, 'sel) KubeClient \<Rightarrow> Build \<Rightarrow> bool" where
  "podMissing isNotFound IsBuildComplete GetBuildPodName kubeClient build =
     (\<not> IsBuildComplete build \<and>
      (case PodsGet kubeClient (Namespace (BuildMeta build)) (GetBuildPodName build) of
         (pod, Some e) \<Rightarrow> isNotFound e
       | (None, None) \<Rightarrow> False
       | (Some p, None) \<Rightarrow> map_index (Labels (PodMeta p)) BuildLabel \<noteq> Name (BuildMeta build)))"

definition syntheticPod :: "(Build \<Rightarrow> string) \<Rightarrow> Build \<Rightarrow> api_Object" where
  "syntheticPod GetBuildPodName build =
     PodObject (deletedPod (GetBuildPodName build) (Namespace (BuildMeta build)))"

text \<open>The world after a sequence of \<^verbatim>\<open>store.Delete\<close> calls, one per object, in order.\<close>

definition deleteAll :: "('d, 'w) StoreDelete \<Rightarrow> api_Object list \<Rightarrow> 'w \<Rightarrow> 'w" where
  "deleteAll storeDelete objs w = foldl (\<lambda>w' obj. snd (storeDelete obj w')) w objs"

text \<open>
  Clients and a store for concrete runs. The store lists the objects handed to
  \<^verbatim>\<open>Delete\<close>. Three pods are listed: the first labelled with build \<open>b1\<close>, the second without
  a build label, the third labelled with build \<open>b3\<close>. \<open>demoOS\<close> knows build \<open>b1\<close> only;
  \<open>brokenOS\<close> answers the lookup of \<open>b1\<close> with an internal error.
\<close>

definition traceDelete :: "(api_error, api_Object list) StoreDelete" where
  "traceDelete obj w = (None, w @ [obj])"

definition parseOK :: "string \<Rightarrow> api_error + string" where
  "parseOK s = Inr s"

definition labelledPod :: "string \<Rightarrow> string \<Rightarrow> string \<Rightarrow> Pod" where
  "labelledPod namespace name buildName =
     \<lparr>PodMeta = \<lparr>Name = name, Namespace = namespace, ResourceVersion = ''1'',
                 Labels = [BuildLabel \<mapsto> buildName], Annotations = None\<rparr>\<rparr>"

definition demoPods :: "Pod list" where
  "demoPods = [labelledPod ''ns'' ''p1'' ''b1'', newPod ''ns'' ''p2'', labelledPod ''ns'' ''p3'' ''b3'']"

definition demoKube :: "(api_error, string) KubeClient" where
  "demoKube =
     \<lparr>PodsList = (\<lambda>sel. Inr demoPods),
      PodsGet = (\<lambda>namespace name.
        if name = ''b1-build'' then (Some (labelledPod namespace name ''b1''), None)
        else if name = ''b2-build'' then (Some (labelledPod namespace name ''other''), None)
        else (None, Some (StatusNotFound name)))\<rparr>"

definition demoBuilds :: "Build list" where
  "demoBuilds = [newBuild ''ns'' ''b1'' dockerOnly, newBuild ''ns'' ''b2'' dockerOnly,
                 newBuild ''ns'' ''b3'' dockerOnly]"

definition demoOS :: "api_error OSClient" where
  "demoOS =
     \<lparr>BuildsList = Inr demoBuilds,
      BuildsGet = (\<lambda>namespace name.
        if name = ''b1'' then (Some (newBuild namespace name dockerOnly), None)
        else (None, Some (StatusNotFound name)))\<rparr>"

definition brokenOS :: "api_error OSClient" where
  "brokenOS =
     \<lparr>BuildsList = Inr demoBuilds,
      BuildsGet = (\<lambda>namespace name.
        if name = ''b1'' then (None, Some (StatusInternalError ''unavailable''))
        else (None, Some (StatusNotFound name)))\<rparr>"

definition phaseComplete :: "Build \<Rightarrow> bool" where
  "phaseComplete build =
     (Phase (Status build) \<noteq> ''Running'' \<and> Phase (Status build) \<noteq> ''Pending'' \<and>
      Phase (Status build) \<noteq> ''New'')"

definition buildPodName :: "Build \<Rightarrow> string" where
  "buildPodName build = Name (BuildMeta build) @ ''-build''"

subsection \<open>Running diagnostics\<close>

text \<open>
  \<^verbatim>\<open>types.Diagnostic\<close> is an interface with the methods \<^verbatim>\<open>Name\<close>, \<^verbatim>\<open>Description\<close>,
  \<^verbatim>\<open>CanRun\<close> and \<^verbatim>\<open>Check\<close>. Each is code of the diagnostic and may panic, so each is
  modelled by the outcome of a call: the value returned, or a panic. An entry of the slice
  may be the nil interface (\<open>None\<close>): every method call on it panics with a nil pointer
  dereference. A \<^verbatim>\<open>DiagnosticResult\<close> gives its log entries, warnings and errors.
\<close>

record DiagnosticResult =
  Logs :: "string list"
  Warnings :: "string list"
  Errors :: "string list"

record Diagnostic =
  diag_Name :: "string result"
  diag_Description :: "string result"
  CanRun :: "(bool \<times> string option) result"
  Check :: "DiagnosticResult result"

definition nilDereference :: "string option" where
  "nilDereference = Some ''runtime error: invalid memory address or nil pointer dereference''"

definition method_call :: "(Diagnostic \<Rightarrow> 'a result) \<Rightarrow> Diagnostic option \<Rightarrow> 'a result" where
  "method_call m diagnostic =
     (case diagnostic of None \<Rightarrow> Panicked nilDereference | Some d \<Rightarrow> m d)"

text \<open>What reaches \<^verbatim>\<open>o.Logger\<close>, in order: the level, the message id and the text.\<close>

datatype log_line =
    LogError string string
  | LogNotice string string
  | LogEntry string

record RunState =
  warnCount :: int
  errorCount :: int
  logger :: "log_line list"

definition newline :: string where
  "newline = [CHR 0x0A]"

definition skipMessage :: "string \<Rightarrow> string \<Rightarrow> string" where
  "skipMessage name description =
     ''Skipping diagnostic: '' @ name @ newline @ ''Description: '' @ description"

definition skipBecauseMessage :: "string \<Rightarrow> string \<Rightarrow> string \<Rightarrow> string" where
  "skipBecauseMessage name description reason =
     skipMessage name description @ newline @ ''Because: '' @ reason"

definition runningMessage :: "string \<Rightarrow> string \<Rightarrow> string" where
  "runningMessage name description =
     ''Running diagnostic: '' @ name @ newline @ ''Description: '' @ description"

definition panicMessage :: "string \<Rightarrow> string \<Rightarrow> string \<Rightarrow> string" where
  "panicMessage name r stack =
     ''While running the '' @ name @ '' diagnostic, a panic was encountered.'' @ newline @
     ''This is a bug in diagnostics. Error and stack trace follow: '' @ newline @
     r @ newline @ stack"

text \<open>
  The body of the closure that \<^verbatim>\<open>Run\<close> calls for one diagnostic, without its deferred
  function: the state it leaves and, if it panicked, the panic's value. The counters and the
  logger are shared with the closure, so what was written before a panic stays written. On
  each of its three paths the first thing the body does after \<^verbatim>\<open>CanRun\<close> is to build a
  notice from \<^verbatim>\<open>Name()\<close> and \<^verbatim>\<open>Description()\<close>, called in this order.
\<close>

definition diagnostic_body ::
  "Diagnostic option \<Rightarrow> RunState \<Rightarrow> RunState \<times> string option option" where
  "diagnostic_body diagnostic st =
     (case method_call CanRun diagnostic of
        Panicked r \<Rightarrow> (st, Some r)
      | Returned (canRun, reason) \<Rightarrow>
          (case method_call diag_Name diagnostic of
             Panicked r \<Rightarrow> (st, Some r)
           | Returned name \<Rightarrow>
               (case method_call diag_Description diagnostic of
                  Panicked r \<Rightarrow> (st, Some r)
                | Returned description \<Rightarrow>
                    if \<not> canRun then
                      (case reason of
                         None \<Rightarrow>
                           (st\<lparr>logger := logger st @
                               [LogNotice ''CED3018'' (skipMessage name description)]\<rparr>, None)
                       | Some why \<Rightarrow>
                           (st\<lparr>logger := logger st @
                               [LogNotice ''CED3019''
                                  (skipBecauseMessage name description why)]\<rparr>, None))
                    else
                      let st1 = st\<lparr>logger := logger st @
                                    [LogNotice ''CED3020'' (runningMessage name description)]\<rparr>
                      in (case method_call Check diagnostic of
                            Panicked r \<Rightarrow> (st1, Some r)
                          | Returned r \<Rightarrow>
                              (st1\<lparr>logger := logger st1 @ map LogEntry (Logs r),
                                   warnCount := warnCount st1 + int (length (Warnings r)),
                                   errorCount := errorCount st1 + int (length (Errors r))\<rparr>,
                               None)))))"

text \<open>
  The closure with its deferred function. \<^verbatim>\<open>recover()\<close> stops a panic of the body and
  returns its value; for a value that is not nil the deferred function adds one to the
  error count, takes the stack trace (\<open>debug_Stack\<close>) and then builds the error line, calling
  \<^verbatim>\<open>diagnostic.Name()\<close> again. A panic of that call is raised inside the deferred function,
  where nothing recovers it: it leaves the closure. The second component is the panic that
  leaves the closure.
\<close>

definition run_diagnostic ::
  "(Diagnostic option \<Rightarrow> string) \<Rightarrow> Diagnostic option \<Rightarrow> RunState \<Rightarrow>
   RunState \<times> string option option" where
  "run_diagnostic debug_Stack diagnostic st =
     (case diagnostic_body diagnostic st of
        (st', None) \<Rightarrow> (st', None)
      | (st', Some r) \<Rightarrow>
          (case r of
             None \<Rightarrow> (st', None)
           | Some v \<Rightarrow>
               let st2 = st'\<lparr>errorCount := errorCount st' + 1\<rparr>;
                   stack = debug_Stack diagnostic
               in (case method_call diag_Name diagnostic of
                     Panicked r' \<Rightarrow> (st2, Some r')
                   | Returned name \<Rightarrow>
                       (st2\<lparr>logger := logger st2 @
                            [LogError ''CED3017'' (panicMessage name v stack)]\<rparr>, None))))"

text \<open>
  The \<^verbatim>\<open>for\<close> loop: a panic that leaves a closure leaves the loop and \<^verbatim>\<open>Run\<close>, and the
  diagnostics after it are not run.
\<close>

fun Run_loop ::
  "(Diagnostic option \<Rightarrow> string) \<Rightarrow> Diagnostic option list \<Rightarrow> RunState \<Rightarrow>
   RunState \<times> string option option" where
  "Run_loop debug_Stack [] st = (st, None)"
| "Run_loop debug_Stack (diagnostic # diagnostics) st =
     (case run_diagnostic debug_Stack diagnostic st of
        (st', Some r) \<Rightarrow> (st', Some r)
      | (st', None) \<Rightarrow> Run_loop debug_Stack diagnostics st')"

text \<open>
  \<^verbatim>\<open>DiagnosticsOptions.Run\<close>: \<open>failed\<close>, the nil error, the two counts, and the logger as
  left; or the panic that leaves it.
\<close>

definition Run ::
  "(Diagnostic option \<Rightarrow> string) \<Rightarrow> Diagnostic option list \<Rightarrow> log_line list \<Rightarrow>
   (bool \<times> string option \<times> int \<times> int) result \<times> log_line list" where
  "Run debug_Stack diagnostics lg =
     (case Run_loop debug_Stack diagnostics \<lparr>warnCount = 0, errorCount = 0, logger = lg\<rparr> of
        (st, Some r) \<Rightarrow> (Panicked r, logger st)
      | (st, None) \<Rightarrow>
          (Returned (errorCount st > 0, None, warnCount st, errorCount st), logger st))"

text \<open>
  The words of the property, per diagnostic. A diagnostic is well named when it is not nil
  and its \<^verbatim>\<open>Name\<close> and \<^verbatim>\<open>Description\<close> return. It panics with a value when its \<^verbatim>\<open>CanRun\<close>
  does, or its \<^verbatim>\<open>CanRun\<close> allows it to run and its \<^verbatim>\<open>Check\<close> does. Its errors are one for a
  panic whose value is not nil, and otherwise the errors of its check if it ran; its warnings
  are those of its check if it ran and returned.
\<close>

definition wellNamed :: "Diagnostic option \<Rightarrow> bool" where
  "wellNamed diagnostic =
     (case diagnostic of
        None \<Rightarrow> False
      | Some d \<Rightarrow>
          (case diag_Name d of
             Panicked _ \<Rightarrow> False
           | Returned _ \<Rightarrow>
               (case diag_Description d of Panicked _ \<Rightarrow> False | Returned _ \<Rightarrow> True)))"

definition diagnostic_panic :: "Diagnostic option \<Rightarrow> string option option" where
  "diagnostic_panic diagnostic =
     (case method_call CanRun diagnostic of
        Panicked r \<Rightarrow> Some r
      | Returned (canRun, reason) \<Rightarrow>
          if canRun
          then (case method_call Check diagnostic of Panicked r \<Rightarrow> Some r | Returned _ \<Rightarrow> None)
          else None)"

definition diagnostic_checked :: "Diagnostic option \<Rightarrow> DiagnosticResult option" where
  "diagnostic_checked diagnostic =
     (case method_call CanRun diagnostic of
        Panicked r \<Rightarrow> None
      | Returned (canRun, reason) \<Rightarrow>
          if canRun
          then (case method_call Check diagnostic of Panicked r \<Rightarrow> None | Returned res \<Rightarrow> Some res)
          else None)"

definition diagnostic_errors :: "Diagnostic option \<Rightarrow> int" where
  "diagnostic_errors diagnostic =
     (case diagnostic_panic diagnostic of
        Some (Some v) \<Rightarrow> 1
      | Some None \<Rightarrow> 0
      | None \<Rightarrow>
          (case diagnostic_checked diagnostic of
             None \<Rightarrow> 0 | Some res \<Rightarrow> int (length (Errors res))))"

definition diagnostic_warnings :: "Diagnostic option \<Rightarrow> int" where
  "diagnostic_warnings diagnostic =
     (case diagnostic_checked diagnostic of
        None \<Rightarrow> 0 | Some res \<Rightarrow> int (length (Warnings res)))"

definition name_of :: "Diagnostic option \<Rightarrow> string" where
  "name_of diagnostic =
     (case method_call diag_Name diagnostic of Returned name \<Rightarrow> name | Panicked _ \<Rightarrow> '''')"

text \<open>
  The lines one diagnostic writes: what its body wrote, then, for a panic whose value is
  not nil, the error line with the stack trace.
\<close>

definition diagnostic_lines ::
  "(Diagnostic option \<Rightarrow> string) \<Rightarrow> Diagnostic option \<Rightarrow> log_line list" where
  "diagnostic_lines debug_Stack diagnostic =
     logger (fst (diagnostic_body diagnostic \<lparr>warnCount = 0, errorCount = 0, logger = []\<rparr>)) @
     (case diagnostic_panic diagnostic of
        Some (Some v) \<Rightarrow>
          [LogError ''CED3017'' (panicMessage (name_of diagnostic) v (debug_Stack diagnostic))]
      | _ \<Rightarrow> [])"

text \<open>
  Diagnostics for concrete runs. The methods of \<open>brokenDiagnostic\<close> all panic, as those of
  a diagnostic held through a nil pointer do when they read a field of their receiver.
\<close>

definition okDiagnostic :: Diagnostic where
  "okDiagnostic =
     \<lparr>diag_Name = Returned ''NodeDefinitions'',
      diag_Description = Returned ''Check node records'',
      CanRun = Returned (True, None),
      Check = Returned \<lparr>Logs = [''checked''], Warnings = [''w1''], Errors = [''e1'', ''e2'']\<rparr>\<rparr>"

definition panickingDiagnostic :: Diagnostic where
  "panickingDiagnostic =
     \<lparr>diag_Name = Returned ''ClusterRegistry'',
      diag_Description = Returned ''Check the registry'',
      CanRun = Returned (True, None),
      Check = Panicked (Some ''index out of range'')\<rparr>"

definition nilPanicDiagnostic :: Diagnostic where
  "nilPanicDiagnostic =
     \<lparr>diag_Name = Returned ''ClusterRouter'',
      diag_Description = Returned ''Check the router'',
      CanRun = Returned (True, None),
      Check = Panicked None\<rparr>"

definition cannotRunDiagnostic :: Diagnostic where
  "cannotRunDiagnostic =
     \<lparr>diag_Name = Returned ''AnalyzeLogs'',
      diag_Description = Returned ''Check the journal'',
      CanRun = Panicked (Some ''nil map''),
      Check = Returned \<lparr>Logs = [], Warnings = [], Errors = []\<rparr>\<rparr>"

definition brokenDiagnostic :: Diagnostic where
  "brokenDiagnostic =
     \<lparr>diag_Name = Panicked nilDereference,
      diag_Description = Panicked nilDereference,
      CanRun = Panicked nilDereference,
      Check = Panicked nilDereference\<rparr>"

definition stackOf :: "Diagnostic option \<Rightarrow> string" where
  "stackOf diagnostic = ''goroutine 1 [running]: '' @ name_of diagnostic"

subsection \<open>Storage for authorize tokens\<close>

text \<open>
  \<^verbatim>\<open>NewREST(s, backends...)\<close> builds an \<^verbatim>\<open>etcdgeneric.Etcd\<close> store. Of its fields the model
  keeps the endpoint name, the key root, the storage and the \<^verbatim>\<open>AfterCreate\<close> hook. A watcher
  is a copy of the store, taken before the hook is set, with its storage replaced by one
  backend. The hook is a closure over the observer; it is modelled by the call of
  \<^verbatim>\<open>ObserveResourceVersion\<close> that it makes for a created token.
\<close>

record OAuthAuthorizeToken =
  TokenMeta :: ObjectMeta
  ExpiresIn :: int

definition EtcdPrefix :: string where
  "EtcdPrefix = ''/oauth/authorizetokens''"

datatype 's Etcd =
  Etcd (EndpointName: string) (KeyRoot: string) (Storage: 's)
    (AfterCreate: "(OAuthAuthorizeToken \<Rightarrow> 's ObserveCall) option")
and 's ObserveCall =
  ObserveCall (call_observer: "'s ClusterObserver") (call_version: string) (call_timeout: Duration)
and 's ClusterObserver =
  ClusterObserver (obs_versioner: 's) (obs_watchers: "'s Etcd list") (obs_required: int)

text \<open>The loop over \<^verbatim>\<open>backends\<close> that builds the watchers.\<close>

fun watchersFor :: "'s Etcd \<Rightarrow> 's list \<Rightarrow> 's Etcd list \<Rightarrow> 's Etcd list" where
  "watchersFor store [] watchers = watchers"
| "watchersFor store (backend # backends) watchers =
     watchersFor store backends
       (watchers @ [Etcd (EndpointName store) (KeyRoot store) backend (AfterCreate store)])"

definition NewREST :: "'s \<Rightarrow> 's list \<Rightarrow> 's Etcd" where
  "NewREST s backends =
     (let store = Etcd ''oauthauthorizetokens'' EtcdPrefix s None in
      if length backends > 0 then
        let watchers = watchersFor store backends [];
            observer = ClusterObserver s watchers 1
        in Etcd (EndpointName store) (KeyRoot store) (Storage store)
             (Some (\<lambda>obj. ObserveCall observer (ResourceVersion (TokenMeta obj)) (5 * Second)))
      else store)"

text \<open>
  Modelled from the spec: the ClusterObserver (the observe package is not among the
  sources). \<^verbatim>\<open>ObserveResourceVersion(targetVersion, timeout)\<close> polls the views until at
  least the required quorum report a version at or past the target, or the timeout elapses,
  and then returns a timeout error. The cluster is given by the delay after which each
  backend first reports a version at or past a target (\<open>None\<close>: never).
\<close>

datatype observe_error = ObserveTimeout

definition reportsInTime :: "('s \<Rightarrow> string \<Rightarrow> Duration option) \<Rightarrow> string \<Rightarrow> Duration \<Rightarrow> 's \<Rightarrow> bool" where
  "reportsInTime cluster target limit backend =
     (case cluster backend target of None \<Rightarrow> False | Some delay \<Rightarrow> delay \<le> limit)"

definition ObserveResourceVersion ::
  "('s \<Rightarrow> string \<Rightarrow> Duration option) \<Rightarrow> 's ObserveCall \<Rightarrow> observe_error option" where
  "ObserveResourceVersion cluster call =
     (if obs_required (call_observer call) \<le>
         int (length (filter (reportsInTime cluster (call_version call) (call_timeout call))
                        (map Storage (obs_watchers (call_observer call)))))
      then None else Some ObserveTimeout)"

text \<open>
  Modelled from the spec: the write path runs the hook, if one is installed, immediately
  after the write and surfaces its error; without a hook the write is declared successful
  at once.
\<close>

definition afterCreate ::
  "('s \<Rightarrow> string \<Rightarrow> Duration option) \<Rightarrow> 's Etcd \<Rightarrow> OAuthAuthorizeToken \<Rightarrow> observe_error option" where
  "afterCreate cluster store obj =
     (case AfterCreate store of
        None \<Rightarrow> None
      | Some hook \<Rightarrow> ObserveResourceVersion cluster (hook obj))"

text \<open>A token and a cluster for concrete runs: of the backends only \<open>etcd2\<close> catches up.\<close>

definition newToken :: "string \<Rightarrow> string \<Rightarrow> OAuthAuthorizeToken" where
  "newToken name resourceVersion =
     \<lparr>TokenMeta = \<lparr>Name = name, Namespace = '''', ResourceVersion = resourceVersion,
                   Labels = Map.empty, Annotations = None\<rparr>,
      ExpiresIn = 300\<rparr>"

definition demoCluster :: "string \<Rightarrow> string \<Rightarrow> Duration option" where
  "demoCluster backend target = (if backend = ''etcd2'' then Some (2 * Second) else None)"

section \<open>Theorems\<close>

subsection \<open>The count-bounded policy\<close>

text \<open>
  The decision of \<^verbatim>\<open>retryFunc\<close> in closed form: retry is indicated exactly when the error
  is not fatal and the count handed in is at most 60.
\<close>

lemma retryFunc_decision:
  "fst (retryFunc kind isFatal obj err retries) =
     (\<not> (case isFatal of None \<Rightarrow> False | Some f \<Rightarrow> f err) \<and> Count retries \<le> 60)"
  by (simp add: retryFunc_def maxRetries_def)

lemma retryFunc_gives_up_above_sixty:
  "60 < Count retries \<Longrightarrow> fst (retryFunc kind isFatal obj err retries) = False"
  by (simp add: retryFunc_decision)

text \<open>
  An episode of a key that keeps failing with a non-fatal error: however long it fails, 61
  retries are granted and the 62nd failed attempt is refused.
\<close>

lemma failing_episode_from:
  "0 \<le> Count r \<Longrightarrow> Count r \<le> 61 \<Longrightarrow> nat (61 - Count r) < n \<Longrightarrow>
   failing_episode (\<lambda>r. fst (retryFunc kind None obj err r)) now n (Some r) =
     replicate (nat (61 - Count r)) True @ [False]"
proof (induction n arbitrary: r)
  case 0
  then show ?case by simp
next
  case (Suc n)
  show ?case
  proof (cases "Count r = 61")
    case True
    then show ?thesis
      by (simp add: RetryManager_Retry_def retryFunc_def maxRetries_def)
  next
    case False
    with Suc.prems have le: "Count r \<le> 60" by simp
    let ?r' = "r\<lparr>Count := Count r + 1\<rparr>"
    have step: "RetryManager_Retry (\<lambda>r. fst (retryFunc kind None obj err r)) now (Some r) =
        (True, Some ?r')"
      using le by (simp add: RetryManager_Retry_def retryFunc_def maxRetries_def)
    have ih: "failing_episode (\<lambda>r. fst (retryFunc kind None obj err r)) now n (Some ?r') =
        replicate (nat (61 - Count ?r')) True @ [False]"
      using Suc.prems le by (intro Suc.IH) auto
    have "nat (61 - Count r) = Suc (nat (61 - Count ?r'))"
      using Suc.prems le by simp
    then show ?thesis
      using step ih by simp
  qed
qed

lemma failing_episode_sixty_one_retries:
  "62 \<le> n \<Longrightarrow>
   failing_episode (\<lambda>r. fst (retryFunc kind None obj err r)) now n None =
     replicate 61 True @ [False]"
proof -
  assume n: "62 \<le> n"
  then obtain m where m: "n = Suc m" and m61: "61 \<le> m"
    by (cases n) auto
  let ?r1 = "\<lparr>Count = 1, StartTimestamp = now\<rparr>"
  have step: "RetryManager_Retry (\<lambda>r. fst (retryFunc kind None obj err r)) now None =
      (True, Some ?r1)"
    by (simp add: RetryManager_Retry_def retryFunc_def maxRetries_def)
  have "failing_episode (\<lambda>r. fst (retryFunc kind None obj err r)) now m (Some ?r1) =
      replicate (nat (61 - Count ?r1)) True @ [False]"
    using m61 by (intro failing_episode_from) auto
  then show ?thesis
    using step m by (simp add: numeral_eq_Suc)
qed

text \<open>
  C1. The claim says the policy indicates retry for the first 60 failed attempts of a key and
  refuses from then on. With a count of 60, that is after 60 retries have been granted, a
  non-fatal error is still retried: the comparison is \<^verbatim>\<open>retries.Count > maxRetries\<close>. Over
  one episode of an always-failing key the first 61 failed attempts are retried and the 62nd
  is the first to be refused.
\<close>

theorem retryFunc_retries_at_count_sixty:
  "retryFunc kind None obj err \<lparr>Count = 60, StartTimestamp = t\<rparr> = (True, []) \<and>
   failing_episode (\<lambda>r. fst (retryFunc kind None obj err r)) now 62 None =
     replicate 61 True @ [False]"
  by (simp add: eval_nat_numeral RetryManager_Retry_def retryFunc_def maxRetries_def)

text \<open>
  C3. When the fatal predicate is supplied and holds of the error, \<^verbatim>\<open>retryFunc\<close> refuses
  retry and reports the error, whatever the retry state holds; so the first failed attempt
  of an episode already ends it.
\<close>

theorem retryFunc_fatal_gives_up:
  "f err \<Longrightarrow>
   retryFunc kind (Some f) obj err retries = (False, [err]) \<and>
   failing_episode (\<lambda>r. fst (retryFunc kind (Some f) obj err r)) now (Suc n) None = [False]"
  by (simp add: RetryManager_Retry_def retryFunc_def)

theorem retryFunc_fatal_gives_up_witness:
  "imageChangeIsFatal (ImageChangeControllerFatalError ''no image'') \<and>
   retryFunc ''ImageStream update'' (Some imageChangeIsFatal) ''ns/stream''
     (ImageChangeControllerFatalError ''no image'') \<lparr>Count = 0, StartTimestamp = 0\<rparr> =
     (False, [ImageChangeControllerFatalError ''no image'']) \<and>
   failing_episode
     (\<lambda>r. fst (retryFunc ''ImageStream update'' (Some imageChangeIsFatal) ''ns/stream''
        (ImageChangeControllerFatalError ''no image'') r)) 0 (Suc 2) None = [False]"
proof -
  have h: "imageChangeIsFatal (ImageChangeControllerFatalError ''no image'')"
    by (simp add: imageChangeIsFatal_def)
  show ?thesis
    using h retryFunc_fatal_gives_up [where f = imageChangeIsFatal
        and err = "ImageChangeControllerFatalError ''no image''"
        and kind = "''ImageStream update''" and obj = "''ns/stream''"
        and retries = "\<lparr>Count = 0, StartTimestamp = 0\<rparr>" and now = 0 and n = 2]
    by simp
qed

subsection \<open>The duration-bounded policy\<close>

text \<open>
  With the 30-minute window the saturation of \<^verbatim>\<open>Time.Sub\<close> plays no part: the test of
  \<^verbatim>\<open>limitedLogAndRetry\<close> is a test on the plain difference of the two instants.
\<close>

lemma window_plain:
  "(time_Since now start < buildRetryTimeout) = (now - start < 1800000000000)"
  by (simp add: time_Since_def time_Sub_def buildRetryTimeout_def Minute_def Second_def
      maxDuration_def minDuration_def)

text \<open>
  C2, as stated, fails: 2000 seconds after the start of the episode, past the 1800-second
  window, the policy still indicates retry when the update of the failed build is answered
  with an error other than not-found.
\<close>

theorem limitedLogAndRetry_retries_past_window:
  "\<not> time_Since 2000000000000 0 < buildRetryTimeout \<and>
   retry (limitedLogAndRetry IsNotFound error_text unavailableUpdater buildRetryTimeout
     2000000000000 2000000000001 (newBuild ''ns'' ''b'' dockerOnly) (OtherError ''push failed'')
     \<lparr>Count = 3, StartTimestamp = 0\<rparr> 0) = True"
  by (simp add: window_plain limitedLogAndRetry_def unavailableUpdater_def IsNotFound_def)

text \<open>
  C2, amended. With the 30-minute window, and whatever the retry count: while less than 30
  minutes have elapsed since the retry state's \<^verbatim>\<open>StartTimestamp\<close>, \<^verbatim>\<open>limitedLogAndRetry\<close>
  indicates retry and touches neither the build nor the world; once the window has elapsed
  it gives the build phase Failed, reason ExceededRetryTimeout, the message derived from the
  error and the completion timestamp, hands the error to \<^verbatim>\<open>HandleError\<close>, calls \<^verbatim>\<open>Update\<close>
  once with that build, and gives up, unless that update fails with an error other than
  not-found, in which case it indicates retry.
\<close>

theorem limitedLogAndRetry_decision:
  "retry (limitedLogAndRetry nf ets upd buildRetryTimeout now now' b err retries w) =
     (now - StartTimestamp retries < 1800000000000 \<or>
      (case fst (upd (Namespace (BuildMeta b)) (failedBuild ets now' b err) w) of
         None \<Rightarrow> False | Some uerr \<Rightarrow> \<not> nf uerr)) \<and>
   (now - StartTimestamp retries < 1800000000000 \<longrightarrow>
      limitedLogAndRetry nf ets upd buildRetryTimeout now now' b err retries w =
        \<lparr>retry = True, build_after = b, handled = [], world_after = w\<rparr>) \<and>
   (\<not> now - StartTimestamp retries < 1800000000000 \<longrightarrow>
      build_after (limitedLogAndRetry nf ets upd buildRetryTimeout now now' b err retries w) =
        failedBuild ets now' b err \<and>
      Status (failedBuild ets now' b err) =
        \<lparr>Phase = BuildPhaseFailed, Reason = StatusReasonExceededRetryTimeout,
         Message = ets err, CompletionTimestamp = Some now'\<rparr> \<and>
      BuildMeta (failedBuild ets now' b err) = BuildMeta b \<and>
      Spec (failedBuild ets now' b err) = Spec b \<and>
      handled (limitedLogAndRetry nf ets upd buildRetryTimeout now now' b err retries w) = [err] \<and>
      world_after (limitedLogAndRetry nf ets upd buildRetryTimeout now now' b err retries w) =
        snd (upd (Namespace (BuildMeta b)) (failedBuild ets now' b err) w)) \<and>
   limitedLogAndRetry nf ets upd buildRetryTimeout now now' b err (retries\<lparr>Count := c\<rparr>) w =
     limitedLogAndRetry nf ets upd buildRetryTimeout now now' b err retries w"
  by (auto simp add: window_plain limitedLogAndRetry_def failedBuild_def Let_def
      split: prod.splits option.splits)

theorem limitedLogAndRetry_decision_witness:
  "limitedLogAndRetry IsNotFound error_text storeUpdater buildRetryTimeout
     1799999999999 1799999999999 (newBuild ''ns'' ''b'' dockerOnly) (OtherError ''push failed'')
     \<lparr>Count = 1000, StartTimestamp = 0\<rparr> storedWorld =
     \<lparr>retry = True, build_after = newBuild ''ns'' ''b'' dockerOnly, handled = [],
      world_after = storedWorld\<rparr> \<and>
   retry (limitedLogAndRetry IsNotFound error_text storeUpdater buildRetryTimeout
     1800000000000 1800000000007 (newBuild ''ns'' ''b'' dockerOnly) (OtherError ''push failed'')
     \<lparr>Count = 0, StartTimestamp = 0\<rparr> storedWorld) = False \<and>
   Status (build_after (limitedLogAndRetry IsNotFound error_text storeUpdater buildRetryTimeout
     1800000000000 1800000000007 (newBuild ''ns'' ''b'' dockerOnly) (OtherError ''push failed'')
     \<lparr>Count = 0, StartTimestamp = 0\<rparr> storedWorld)) =
     \<lparr>Phase = BuildPhaseFailed, Reason = StatusReasonExceededRetryTimeout,
      Message = ''push failed'', CompletionTimestamp = Some 1800000000007\<rparr> \<and>
   handled (limitedLogAndRetry IsNotFound error_text storeUpdater buildRetryTimeout
     1800000000000 1800000000007 (newBuild ''ns'' ''b'' dockerOnly) (OtherError ''push failed'')
     \<lparr>Count = 0, StartTimestamp = 0\<rparr> storedWorld) = [OtherError ''push failed''] \<and>
   world_after (limitedLogAndRetry IsNotFound error_text storeUpdater buildRetryTimeout
     1800000000000 1800000000007 (newBuild ''ns'' ''b'' dockerOnly) (OtherError ''push failed'')
     \<lparr>Count = 0, StartTimestamp = 0\<rparr> storedWorld) (''ns'', ''b'') =
     Some (failedBuild error_text 1800000000007 (newBuild ''ns'' ''b'' dockerOnly)
       (OtherError ''push failed'')) \<and>
   retry (limitedLogAndRetry IsNotFound error_text unavailableUpdater buildRetryTimeout
     1800000000000 1800000000007 (newBuild ''ns'' ''b'' dockerOnly) (OtherError ''push failed'')
     \<lparr>Count = 0, StartTimestamp = 0\<rparr> 0) = True \<and>
   world_after (limitedLogAndRetry IsNotFound error_text unavailableUpdater buildRetryTimeout
     1800000000000 1800000000007 (newBuild ''ns'' ''b'' dockerOnly) (OtherError ''push failed'')
     \<lparr>Count = 0, StartTimestamp = 0\<rparr> 0) = 1"
  using limitedLogAndRetry_decision [where nf = IsNotFound and ets = error_text
      and upd = storeUpdater and now = 1799999999999 and now' = 1799999999999
      and b = "newBuild ''ns'' ''b'' dockerOnly" and err = "OtherError ''push failed''"
      and retries = "\<lparr>Count = 1000, StartTimestamp = 0\<rparr>" and w = storedWorld]
    limitedLogAndRetry_decision [where nf = IsNotFound and ets = error_text
      and upd = storeUpdater and now = 1800000000000 and now' = 1800000000007
      and b = "newBuild ''ns'' ''b'' dockerOnly" and err = "OtherError ''push failed''"
      and retries = "\<lparr>Count = 0, StartTimestamp = 0\<rparr>" and w = storedWorld]
    limitedLogAndRetry_decision [where nf = IsNotFound and ets = error_text
      and upd = unavailableUpdater and now = 1800000000000 and now' = 1800000000007
      and b = "newBuild ''ns'' ''b'' dockerOnly" and err = "OtherError ''push failed''"
      and retries = "\<lparr>Count = 0, StartTimestamp = 0\<rparr>" and w = 0]
  by (simp add: storeUpdater_def storedWorld_def unavailableUpdater_def IsNotFound_def
      newBuild_def failedBuild_def error_text_def Let_def)

text \<open>
  C4, as stated, fails, in two ways. For a build that is no longer stored the policy decides
  not to retry, yet the update was answered with not-found and no failed status is
  persisted. And when the first update of the failed status fails with an internal error the
  policy indicates retry; at the next failure of the same episode the give-up path runs
  again, the update succeeds and the policy gives up: the path ran twice, as the two calls
  counted by the updater show.
\<close>

theorem limitedLogAndRetry_give_up_counterexample:
  "retry (limitedLogAndRetry IsNotFound error_text storeUpdater buildRetryTimeout
     2000000000000 2000000000001 (newBuild ''ns'' ''b'' dockerOnly) (OtherError ''push failed'')
     \<lparr>Count = 3, StartTimestamp = 0\<rparr> Map.empty) = False \<and>
   world_after (limitedLogAndRetry IsNotFound error_text storeUpdater buildRetryTimeout
     2000000000000 2000000000001 (newBuild ''ns'' ''b'' dockerOnly) (OtherError ''push failed'')
     \<lparr>Count = 3, StartTimestamp = 0\<rparr> Map.empty) (''ns'', ''b'') = None \<and>
   retry (limitedLogAndRetry IsNotFound error_text flakyUpdater buildRetryTimeout
     2000000000000 2000000000001 (newBuild ''ns'' ''b'' dockerOnly) (OtherError ''push failed'')
     \<lparr>Count = 3, StartTimestamp = 0\<rparr> 0) = True \<and>
   world_after (limitedLogAndRetry IsNotFound error_text flakyUpdater buildRetryTimeout
     2000000000000 2000000000001 (newBuild ''ns'' ''b'' dockerOnly) (OtherError ''push failed'')
     \<lparr>Count = 3, StartTimestamp = 0\<rparr> 0) = 1 \<and>
   retry (limitedLogAndRetry IsNotFound error_text flakyUpdater buildRetryTimeout
     2001000000000 2001000000001
     (failedBuild error_text 2000000000001 (newBuild ''ns'' ''b'' dockerOnly)
        (OtherError ''push failed''))
     (OtherError ''push failed'') \<lparr>Count = 4, StartTimestamp = 0\<rparr> 1) = False \<and>
   world_after (limitedLogAndRetry IsNotFound error_text flakyUpdater buildRetryTimeout
     2001000000000 2001000000001
     (failedBuild error_text 2000000000001 (newBuild ''ns'' ''b'' dockerOnly)
        (OtherError ''push failed''))
     (OtherError ''push failed'') \<lparr>Count = 4, StartTimestamp = 0\<rparr> 1) = 2"
  by (simp add: window_plain limitedLogAndRetry_def storeUpdater_def flakyUpdater_def
      IsNotFound_def failedBuild_def newBuild_def Let_def)

text \<open>
  C4, amended. Whenever \<^verbatim>\<open>limitedLogAndRetry\<close> refuses retry, the window has elapsed and
  in that call the build was given phase Failed, reason ExceededRetryTimeout, the message
  derived from the error and the completion timestamp, with its metadata and spec untouched;
  the error was handed to \<^verbatim>\<open>HandleError\<close>; \<^verbatim>\<open>Update\<close> was called once, with that build in
  its namespace, and either succeeded or was answered with not-found; and the retry state of
  the key is discarded.
\<close>

theorem limitedLogAndRetry_give_up_path:
  assumes "retry (limitedLogAndRetry nf ets upd maxTimeout now now' b err retries w) = False"
  shows "\<not> time_Since now (StartTimestamp retries) < maxTimeout \<and>
    build_after (limitedLogAndRetry nf ets upd maxTimeout now now' b err retries w) =
      failedBuild ets now' b err \<and>
    Status (failedBuild ets now' b err) =
      \<lparr>Phase = BuildPhaseFailed, Reason = StatusReasonExceededRetryTimeout,
       Message = ets err, CompletionTimestamp = Some now'\<rparr> \<and>
    BuildMeta (failedBuild ets now' b err) = BuildMeta b \<and>
    Spec (failedBuild ets now' b err) = Spec b \<and>
    handled (limitedLogAndRetry nf ets upd maxTimeout now now' b err retries w) = [err] \<and>
    world_after (limitedLogAndRetry nf ets upd maxTimeout now now' b err retries w) =
      snd (upd (Namespace (BuildMeta b)) (failedBuild ets now' b err) w) \<and>
    (case fst (upd (Namespace (BuildMeta b)) (failedBuild ets now' b err) w) of
       None \<Rightarrow> True | Some uerr \<Rightarrow> nf uerr) \<and>
    RetryManager_Retry
      (\<lambda>r. retry (limitedLogAndRetry nf ets upd maxTimeout now now' b err r w)) t (Some retries) =
      (False, None)"
  using assms
  by (auto simp add: limitedLogAndRetry_def failedBuild_def Let_def RetryManager_Retry_def
      split: prod.splits option.splits if_splits)

theorem limitedLogAndRetry_give_up_path_witness:
  "retry (limitedLogAndRetry IsNotFound error_text storeUpdater buildRetryTimeout
     1800000000000 1800000000005 (newBuild ''ns'' ''b'' dockerOnly) (OtherError ''push failed'')
     \<lparr>Count = 7, StartTimestamp = 0\<rparr> storedWorld) = False \<and>
   world_after (limitedLogAndRetry IsNotFound error_text storeUpdater buildRetryTimeout
     1800000000000 1800000000005 (newBuild ''ns'' ''b'' dockerOnly) (OtherError ''push failed'')
     \<lparr>Count = 7, StartTimestamp = 0\<rparr> storedWorld) (''ns'', ''b'') =
     Some (failedBuild error_text 1800000000005 (newBuild ''ns'' ''b'' dockerOnly)
       (OtherError ''push failed'')) \<and>
   Status (failedBuild error_text 1800000000005 (newBuild ''ns'' ''b'' dockerOnly)
       (OtherError ''push failed'')) =
     \<lparr>Phase = BuildPhaseFailed, Reason = StatusReasonExceededRetryTimeout,
      Message = ''push failed'', CompletionTimestamp = Some 1800000000005\<rparr>"
proof -
  have h: "retry (limitedLogAndRetry IsNotFound error_text storeUpdater buildRetryTimeout
     1800000000000 1800000000005 (newBuild ''ns'' ''b'' dockerOnly) (OtherError ''push failed'')
     \<lparr>Count = 7, StartTimestamp = 0\<rparr> storedWorld) = False"
    by (simp add: window_plain limitedLogAndRetry_def storeUpdater_def storedWorld_def
        failedBuild_def newBuild_def Let_def)
  show ?thesis
    using h limitedLogAndRetry_give_up_path [OF h, of 0]
    by (simp add: storeUpdater_def storedWorld_def failedBuild_def newBuild_def error_text_def
        Let_def)
qed

subsection \<open>The key lister and getter\<close>

text \<open>
  C6. For every key \<^verbatim>\<open>GetByKey\<close> answers the empty string, \<^verbatim>\<open>true\<close> and no error, and
  \<^verbatim>\<open>ListKeys\<close> answers the empty list; a delta queue that asks this getter whether a key is
  known therefore queues every deletion it is handed, appending a \<open>Deleted\<close> delta to the
  deltas pending for the key.
\<close>

theorem keyListerGetter_queues_every_delete:
  "keyListerGetter_GetByKey key = ('''', True, None) \<and>
   keyListerGetter_ListKeys = [] \<and>
   DeltaFIFO_Delete (Some keyListerGetter_GetByKey) k obj f = queueAction Deleted k obj f \<and>
   items (DeltaFIFO_Delete (Some keyListerGetter_GetByKey) k obj f) k =
     Some ((case items f k of None \<Rightarrow> [] | Some ds \<Rightarrow> ds) @ [\<lparr>Type = Deleted, Object = obj\<rparr>])"
  by (simp add: keyListerGetter_GetByKey_def keyListerGetter_ListKeys_def DeltaFIFO_Delete_def
      queueAction_def split: option.split)

subsection \<open>Strategy dispatch\<close>

text \<open>
  C9. \<^verbatim>\<open>CreateBuildPod\<close> calls exactly one strategy, chosen by the strategy field of the
  build's spec that is set (the Docker field first, then Source, then Custom): the pod, the
  error and the world are those of that one call, the pod annotated with the build's name.
  When no field is set it calls no strategy and returns a nil pod with the error
  \<^verbatim>\<open>no supported build strategy defined for Build <namespace>/<name>\<close>.
\<close>

theorem CreateBuildPod_dispatch:
  "(DockerStrategy (Strategy (Spec build)) \<noteq> None \<longrightarrow>
      CreateBuildPod f build w =
        ((annotatePod build (fst (fst (DockerBuildStrategy f build w))),
          map_option StrategyError (snd (fst (DockerBuildStrategy f build w)))),
         snd (DockerBuildStrategy f build w))) \<and>
   (DockerStrategy (Strategy (Spec build)) = None \<and>
    SourceStrategy (Strategy (Spec build)) \<noteq> None \<longrightarrow>
      CreateBuildPod f build w =
        ((annotatePod build (fst (fst (SourceBuildStrategy f build w))),
          map_option StrategyError (snd (fst (SourceBuildStrategy f build w)))),
         snd (SourceBuildStrategy f build w))) \<and>
   (DockerStrategy (Strategy (Spec build)) = None \<and>
    SourceStrategy (Strategy (Spec build)) = None \<and>
    CustomStrategy (Strategy (Spec build)) \<noteq> None \<longrightarrow>
      CreateBuildPod f build w =
        ((annotatePod build (fst (fst (CustomBuildStrategy f build w))),
          map_option StrategyError (snd (fst (CustomBuildStrategy f build w)))),
         snd (CustomBuildStrategy f build w))) \<and>
   (DockerStrategy (Strategy (Spec build)) = None \<and>
    SourceStrategy (Strategy (Spec build)) = None \<and>
    CustomStrategy (Strategy (Spec build)) = None \<longrightarrow>
      CreateBuildPod f build w =
        ((None, Some (Errorf (''no supported build strategy defined for Build '' @
            Namespace (BuildMeta build) @ ''/'' @ Name (BuildMeta build)))), w))"
  by (auto simp add: CreateBuildPod_def noStrategyMessage_def split: prod.splits)

theorem CreateBuildPod_dispatch_witness:
  "snd (CreateBuildPod recordingStrategies (newBuild ''ns'' ''b'' dockerOnly) []) = [''docker''] \<and>
   snd (CreateBuildPod recordingStrategies (newBuild ''ns'' ''b'' sourceOnly) []) = [''source''] \<and>
   CreateBuildPod recordingStrategies (newBuild ''ns'' ''b'' customOnly) [] =
     ((Some \<lparr>PodMeta = \<lparr>Name = ''b-build'', Namespace = ''ns'', ResourceVersion = ''1'',
         Labels = Map.empty, Annotations = Some [BuildAnnotation \<mapsto> ''b'']\<rparr>\<rparr>, None),
      [''custom'']) \<and>
   CreateBuildPod recordingStrategies (newBuild ''ns'' ''b'' noStrategy) [] =
     ((None, Some (Errorf ''no supported build strategy defined for Build ns/b'')), [])"
  using CreateBuildPod_dispatch [where f = recordingStrategies
      and build = "newBuild ''ns'' ''b'' dockerOnly" and w = "[]"]
    CreateBuildPod_dispatch [where f = recordingStrategies
      and build = "newBuild ''ns'' ''b'' sourceOnly" and w = "[]"]
    CreateBuildPod_dispatch [where f = recordingStrategies
      and build = "newBuild ''ns'' ''b'' customOnly" and w = "[]"]
    CreateBuildPod_dispatch [where f = recordingStrategies
      and build = "newBuild ''ns'' ''b'' noStrategy" and w = "[]"]
  by (simp add: recordingStrategies_def recordingCreator_def newBuild_def dockerOnly_def
      sourceOnly_def customOnly_def noStrategy_def annotatePod_def newPod_def Let_def)

subsection \<open>The handlers of the delete controllers\<close>

lemma buildDeltas_loop_none:
  "\<forall>d \<in> set deltas. Type d \<noteq> Deleted \<Longrightarrow> buildDeltas_loop h deltas w = (Returned None, w)"
  by (induction deltas) auto

lemma buildDeltas_loop_first:
  "\<forall>d \<in> set pre. Type d \<noteq> Deleted \<Longrightarrow> Type d = Deleted \<Longrightarrow>
   buildDeltas_loop h (pre @ d # post) w =
     (case Object d of
        BuildObject build \<Rightarrow> (case h build w of (err, w') \<Rightarrow> (Returned err, w'))
      | _ \<Rightarrow> (Panicked (Some ''interface conversion: not *api.Build''), w))"
  by (induction pre) (auto split: api_Object.splits)

lemma podDeltas_loop_none:
  "\<forall>d \<in> set deltas. Type d \<noteq> Deleted \<Longrightarrow> podDeltas_loop h deltas w = (Returned None, w)"
  by (induction deltas) auto

lemma podDeltas_loop_first:
  "\<forall>d \<in> set pre. Type d \<noteq> Deleted \<Longrightarrow> Type d = Deleted \<Longrightarrow>
   podDeltas_loop h (pre @ d # post) w =
     (case Object d of
        PodObject pod \<Rightarrow> (case h pod w of (err, w') \<Rightarrow> (Returned err, w'))
      | _ \<Rightarrow> (Panicked (Some ''interface conversion: not *api.Pod''), w))"
  by (induction pre) (auto split: api_Object.splits)

text \<open>
  C10. For both delete controllers: when the popped deltas hold no \<open>Deleted\<close> delta,
  \<^verbatim>\<open>Handle\<close> returns nil and leaves the world as it was; otherwise the outcome is decided by
  the first \<open>Deleted\<close> delta alone, whatever follows it: the deletion handler is invoked
  once, on the build (the pod) of that delta, and its error and world are returned. The type
  assertion on that delta's object comes first: an object of another type panics instead.
\<close>

theorem delete_Handle_first_Deleted:
  "((\<forall>d \<in> set deltas. Type d \<noteq> Deleted) \<longrightarrow>
      BuildControllerFactory_CreateDeleteController_Handle hb (DeltasObject deltas) wb =
        (Returned None, wb) \<and>
      BuildPodControllerFactory_CreateDeleteController_Handle hp (DeltasObject deltas) wp =
        (Returned None, wp)) \<and>
   ((\<forall>d \<in> set pre. Type d \<noteq> Deleted) \<and> Type d = Deleted \<longrightarrow>
      BuildControllerFactory_CreateDeleteController_Handle hb (DeltasObject (pre @ d # post)) wb =
        (case Object d of
           BuildObject build \<Rightarrow> (case hb build wb of (err, w') \<Rightarrow> (Returned err, w'))
         | _ \<Rightarrow> (Panicked (Some ''interface conversion: not *api.Build''), wb)) \<and>
      BuildPodControllerFactory_CreateDeleteController_Handle hp (DeltasObject (pre @ d # post)) wp =
        (case Object d of
           PodObject pod \<Rightarrow> (case hp pod wp of (err, w') \<Rightarrow> (Returned err, w'))
         | _ \<Rightarrow> (Panicked (Some ''interface conversion: not *api.Pod''), wp)))"
  by (simp add: BuildControllerFactory_CreateDeleteController_Handle_def
      BuildPodControllerFactory_CreateDeleteController_Handle_def
      buildDeltas_loop_none buildDeltas_loop_first podDeltas_loop_none podDeltas_loop_first)

theorem delete_Handle_first_Deleted_witness:
  "BuildControllerFactory_CreateDeleteController_Handle recordBuildDeletion
     (DeltasObject [\<lparr>Type = Added, Object = BuildObject (newBuild ''ns'' ''a'' dockerOnly)\<rparr>,
        \<lparr>Type = Updated, Object = BuildObject (newBuild ''ns'' ''a'' dockerOnly)\<rparr>]) [] =
     (Returned None, []) \<and>
   BuildControllerFactory_CreateDeleteController_Handle recordBuildDeletion
     (DeltasObject ([\<lparr>Type = Added, Object = BuildObject (newBuild ''ns'' ''a'' dockerOnly)\<rparr>] @
        \<lparr>Type = Deleted, Object = BuildObject (newBuild ''ns'' ''b'' dockerOnly)\<rparr> #
        [\<lparr>Type = Deleted, Object = BuildObject (newBuild ''ns'' ''c'' dockerOnly)\<rparr>])) [] =
     (Returned None, [''b'']) \<and>
   BuildPodControllerFactory_CreateDeleteController_Handle recordPodDeletion
     (DeltasObject ([\<lparr>Type = Sync, Object = PodObject (newPod ''ns'' ''p'')\<rparr>] @
        \<lparr>Type = Deleted, Object = PodObject (newPod ''ns'' ''q'')\<rparr> #
        [\<lparr>Type = Deleted, Object = PodObject (newPod ''ns'' ''r'')\<rparr>])) [] =
     (Returned None, [''q''])"
  using delete_Handle_first_Deleted [where hb = recordBuildDeletion and wb = "[]"
      and hp = recordPodDeletion and wp = "[]"
      and deltas = "[\<lparr>Type = Added, Object = BuildObject (newBuild ''ns'' ''a'' dockerOnly)\<rparr>,
        \<lparr>Type = Updated, Object = BuildObject (newBuild ''ns'' ''a'' dockerOnly)\<rparr>]"
      and pre = "[\<lparr>Type = Added, Object = BuildObject (newBuild ''ns'' ''a'' dockerOnly)\<rparr>]"
      and d = "\<lparr>Type = Deleted, Object = BuildObject (newBuild ''ns'' ''b'' dockerOnly)\<rparr>"
      and post = "[\<lparr>Type = Deleted, Object = BuildObject (newBuild ''ns'' ''c'' dockerOnly)\<rparr>]"]
    delete_Handle_first_Deleted [where hb = recordBuildDeletion and wb = "[]"
      and hp = recordPodDeletion and wp = "[]"
      and deltas = "[]"
      and pre = "[\<lparr>Type = Sync, Object = PodObject (newPod ''ns'' ''p'')\<rparr>]"
      and d = "\<lparr>Type = Deleted, Object = PodObject (newPod ''ns'' ''q'')\<rparr>"
      and post = "[\<lparr>Type = Deleted, Object = PodObject (newPod ''ns'' ''r'')\<rparr>]"]
  by (simp add: recordBuildDeletion_def recordPodDeletion_def newBuild_def newPod_def)

subsection \<open>The list-watchers of the delete controllers\<close>

text \<open>
  When no build lookup fails, the loop of \<^verbatim>\<open>buildDeleteLW.List\<close> runs to the end of the pod
  list and calls \<^verbatim>\<open>store.Delete\<close> once for each pod whose build is absent, in the order of the
  pods.
\<close>

lemma buildDeleteLW_loop_ok:
  "\<forall>pod \<in> set pods. \<not> buildLookupFails nf client pod \<Longrightarrow>
   buildDeleteLW_loop nf client del pods w =
     (None, deleteAll del (map syntheticBuild (filter (buildAbsent nf client) pods)) w)"
proof (induction pods arbitrary: w)
  case Nil
  then show ?case by (simp add: deleteAll_def)
next
  case (Cons pod pods)
  then show ?case
    by (auto simp add: deleteAll_def buildLookupFails_def buildAbsent_def syntheticBuild_def Let_def
        split: prod.splits option.splits)
qed

text \<open>
  At the first pod whose build lookup fails the loop returns that error; the pods after it
  are not looked at.
\<close>

lemma buildDeleteLW_loop_fails:
  "\<forall>pod \<in> set pre. \<not> buildLookupFails nf client pod \<Longrightarrow> buildLookupFails nf client p \<Longrightarrow>
   buildDeleteLW_loop nf client del (pre @ p # post) w =
     (snd (BuildsGet client (Namespace (PodMeta p)) (map_index (Labels (PodMeta p)) BuildLabel)),
      deleteAll del (map syntheticBuild (filter (buildAbsent nf client) pre)) w)"
proof (induction pre arbitrary: w)
  case Nil
  then show ?case
    by (auto simp add: deleteAll_def buildLookupFails_def Let_def split: prod.splits option.splits)
next
  case (Cons pod pre)
  then show ?case
    by (auto simp add: deleteAll_def buildLookupFails_def buildAbsent_def syntheticBuild_def Let_def
        split: prod.splits option.splits)
qed

lemma buildPodDeleteLW_loop_ok:
  "\<forall>b \<in> set builds. \<not> podLookupFails nf complete podName kube b \<and>
      \<not> podLookupEmpty complete podName kube b \<Longrightarrow>
   buildPodDeleteLW_loop nf complete podName kube del builds w =
     (Returned None,
      deleteAll del (map (syntheticPod podName) (filter (podMissing nf complete podName kube) builds)) w)"
proof (induction builds arbitrary: w)
  case Nil
  then show ?case by (simp add: deleteAll_def)
next
  case (Cons b builds)
  then show ?case
    by (auto simp add: deleteAll_def podLookupFails_def podLookupEmpty_def podMissing_def
        syntheticPod_def split: prod.splits option.splits)
qed

text \<open>
  C5, as stated, fails: pod \<open>p3\<close> is listed, carries the build label \<open>b3\<close> and the lookup of
  \<open>b3\<close> answers not-found, yet the relist returns the internal error met at pod \<open>p1\<close>
  instead of an empty list, and nothing was handed to \<^verbatim>\<open>store.Delete\<close>.
\<close>

theorem buildDeleteLW_List_stops_at_lookup_error:
  "labelledPod ''ns'' ''p3'' ''b3'' \<in> set demoPods \<and>
   buildAbsent IsNotFound brokenOS (labelledPod ''ns'' ''p3'' ''b3'') \<and>
   buildDeleteLW_List parseOK IsNotFound demoKube brokenOS traceDelete [] =
     (Inl (StatusInternalError ''unavailable''), [])"
  by (simp add: demoPods_def buildAbsent_def brokenOS_def labelledPod_def map_index_def
      IsNotFound_def buildDeleteLW_List_def listPods_def parseOK_def demoKube_def BuildLabel_def)

text \<open>
  C5, amended. On a relist by \<^verbatim>\<open>buildDeleteLW.List\<close> in which the pods are listed and no
  build lookup fails with an error other than not-found, \<^verbatim>\<open>store.Delete\<close> is called exactly
  once, in the order of the pods, for each pod with a non-empty build label whose build is
  absent, with a synthetic build of that name in the pod's namespace, and \<^verbatim>\<open>List\<close> returns an
  empty build list. Likewise for \<^verbatim>\<open>buildPodDeleteLW.List\<close>, when the builds are listed and
  every pod lookup of an incomplete build returns an error that is not-found or a pod: one
  \<^verbatim>\<open>store.Delete\<close> of a synthetic pod per incomplete build whose pod is missing or labelled
  with another build, and an empty pod list.
\<close>

theorem deleteLW_List_relist:
  "(listPods parse kube = Inr pods \<and> (\<forall>pod \<in> set pods. \<not> buildLookupFails nf client pod) \<longrightarrow>
      buildDeleteLW_List parse nf kube client del w =
        (Inr [], deleteAll del (map syntheticBuild (filter (buildAbsent nf client) pods)) w)) \<and>
   (BuildsList client = Inr builds \<and>
    (\<forall>b \<in> set builds. \<not> podLookupFails nf complete podName kube b \<and>
       \<not> podLookupEmpty complete podName kube b) \<longrightarrow>
      buildPodDeleteLW_List nf complete podName kube client del w =
        (Returned (Inr []),
         deleteAll del (map (syntheticPod podName)
           (filter (podMissing nf complete podName kube) builds)) w))"
  by (simp add: buildDeleteLW_List_def buildPodDeleteLW_List_def buildDeleteLW_loop_ok
      buildPodDeleteLW_loop_ok)

theorem deleteLW_List_relist_witness:
  "buildDeleteLW_List parseOK IsNotFound demoKube demoOS traceDelete [] =
     (Inr [], [BuildObject (deletedBuild ''b3'' ''ns'')]) \<and>
   buildPodDeleteLW_List IsNotFound phaseComplete buildPodName demoKube demoOS traceDelete [] =
     (Returned (Inr []),
      [PodObject (deletedPod ''b2-build'' ''ns''), PodObject (deletedPod ''b3-build'' ''ns'')])"
  using deleteLW_List_relist [where parse = parseOK and kube = demoKube and pods = demoPods
      and nf = IsNotFound and client = demoOS and del = traceDelete and w = "[]"
      and builds = demoBuilds and complete = phaseComplete and podName = buildPodName]
  by (simp add: demoPods_def demoBuilds_def demoOS_def demoKube_def labelledPod_def newPod_def
      newBuild_def map_index_def IsNotFound_def listPods_def parseOK_def BuildLabel_def
      traceDelete_def phaseComplete_def buildPodName_def BuildPhaseNew_def
      buildLookupFails_def buildAbsent_def syntheticBuild_def podLookupFails_def
      podLookupEmpty_def podMissing_def syntheticPod_def deleteAll_def)

subsection \<open>Running diagnostics\<close>

text \<open>
  For a well-named diagnostic the closure, with its deferred function, adds the diagnostic's
  lines, warnings and errors to the state and lets no panic out.
\<close>

lemma wellNamed_cases:
  assumes "wellNamed d"
  obtains x name description where "d = Some x" and "diag_Name x = Returned name"
    and "diag_Description x = Returned description"
  using assms by (auto simp add: wellNamed_def split: option.splits result.splits)

lemma run_diagnostic_effect:
  assumes "wellNamed d"
  shows "run_diagnostic stack d st =
     (st\<lparr>logger := logger st @ diagnostic_lines stack d,
         warnCount := warnCount st + diagnostic_warnings d,
         errorCount := errorCount st + diagnostic_errors d\<rparr>, None)"
proof -
  from assms obtain x name description where d: "d = Some x"
    and n: "diag_Name x = Returned name" and ds: "diag_Description x = Returned description"
    by (rule wellNamed_cases)
  show ?thesis
  proof (cases "CanRun x")
    case (Panicked r)
    then show ?thesis
      using d n ds
      by (cases r) (simp_all add: run_diagnostic_def diagnostic_body_def diagnostic_lines_def
          diagnostic_panic_def diagnostic_checked_def diagnostic_errors_def
          diagnostic_warnings_def method_call_def name_of_def Let_def)
  next
    case (Returned cr)
    obtain canRun reason where cr: "cr = (canRun, reason)" by (cases cr)
    show ?thesis
    proof (cases canRun)
      case False
      then show ?thesis
        using d n ds Returned cr
        by (cases reason) (simp_all add: run_diagnostic_def diagnostic_body_def
            diagnostic_lines_def diagnostic_panic_def diagnostic_checked_def
            diagnostic_errors_def diagnostic_warnings_def method_call_def name_of_def Let_def)
    next
      case True
      show ?thesis
      proof (cases "Check x")
        case (Panicked r)
        then show ?thesis
          using d n ds Returned cr True
          by (cases r) (simp_all add: run_diagnostic_def diagnostic_body_def
              diagnostic_lines_def diagnostic_panic_def diagnostic_checked_def
              diagnostic_errors_def diagnostic_warnings_def method_call_def name_of_def Let_def)
      next
        case (Returned res)
        then show ?thesis
          using d n ds \<open>CanRun x = Returned cr\<close> cr True
          by (simp add: run_diagnostic_def diagnostic_body_def
              diagnostic_lines_def diagnostic_panic_def diagnostic_checked_def
              diagnostic_errors_def diagnostic_warnings_def method_call_def name_of_def Let_def)
      qed
    qed
  qed
qed

lemma Run_loop_effect:
  "\<forall>d \<in> set ds. wellNamed d \<Longrightarrow>
   Run_loop stack ds st =
     (st\<lparr>logger := logger st @ concat (map (diagnostic_lines stack) ds),
         warnCount := warnCount st + sum_list (map diagnostic_warnings ds),
         errorCount := errorCount st + sum_list (map diagnostic_errors ds)\<rparr>, None)"
proof (induction ds arbitrary: st)
  case Nil
  then show ?case by simp
next
  case (Cons d ds)
  then have d: "wellNamed d" and ds: "\<forall>d \<in> set ds. wellNamed d"
    by simp_all
  show ?case
    by (simp add: run_diagnostic_effect [OF d] Cons.IH [OF ds] add.assoc)
qed

text \<open>
  So a list of well-named diagnostics is run to its end, whatever their \<^verbatim>\<open>CanRun\<close> and
  \<^verbatim>\<open>Check\<close> do: \<^verbatim>\<open>Run\<close> returns the sums of what each contributes, and \<open>failed\<close> exactly
  when the error count is positive.
\<close>

lemma Run_well_named:
  "\<forall>d \<in> set ds. wellNamed d \<Longrightarrow>
   Run stack ds lg =
     (Returned (sum_list (map diagnostic_errors ds) > 0, None,
        sum_list (map diagnostic_warnings ds), sum_list (map diagnostic_errors ds)),
      lg @ concat (map (diagnostic_lines stack) ds))"
  by (simp add: Run_def Run_loop_effect)

lemma diagnostic_panic_value:
  "diagnostic_panic d = Some (Some v) \<Longrightarrow>
   diagnostic_errors d = 1 \<and> diagnostic_warnings d = 0 \<and>
   (\<exists>before. diagnostic_lines stack d =
      before @ [LogError ''CED3017'' (panicMessage (name_of d) v (stack d))])"
  by (auto simp add: diagnostic_errors_def diagnostic_warnings_def diagnostic_lines_def
      diagnostic_panic_def diagnostic_checked_def split: result.splits if_splits)

text \<open>
  C8. The property says that a panic inside a diagnostic's \<^verbatim>\<open>CanRun\<close> or \<^verbatim>\<open>Check\<close> is
  recovered, logged, counted as one error, and that \<^verbatim>\<open>Run\<close> goes on with the remaining
  diagnostics and never propagates the panic. The code misses two cases. The deferred
  function calls \<^verbatim>\<open>diagnostic.Name()\<close> to build the error line: for a diagnostic whose
  methods all panic, and for a nil entry, the panic of \<^verbatim>\<open>CanRun\<close> is recovered and counted,
  and the panic of \<^verbatim>\<open>Name\<close> then leaves \<^verbatim>\<open>Run\<close>, with nothing logged and the diagnostic
  after it never run. And a \<^verbatim>\<open>Check\<close> that panics with the nil value is recovered but
  neither counted nor logged, since the deferred function tests \<^verbatim>\<open>r != nil\<close>.
\<close>

theorem Run_propagates_handler_panic:
  "Run stackOf [Some brokenDiagnostic, Some okDiagnostic] [] = (Panicked nilDereference, []) \<and>
   Run stackOf [None, Some okDiagnostic] [] = (Panicked nilDereference, []) \<and>
   Run stackOf [Some nilPanicDiagnostic] [] =
     (Returned (False, None, 0, 0),
      [LogNotice ''CED3020'' (runningMessage ''ClusterRouter'' ''Check the router'')])"
  by (simp add: Run_def run_diagnostic_def diagnostic_body_def method_call_def
      brokenDiagnostic_def nilPanicDiagnostic_def nilDereference_def Let_def)

subsection \<open>Storage for authorize tokens\<close>

lemma watchersFor_map:
  "watchersFor store backends acc =
     acc @ map (\<lambda>b. Etcd (EndpointName store) (KeyRoot store) b (AfterCreate store)) backends"
  by (induction backends arbitrary: acc) auto

lemma quorum_one: "(1 \<le> int (length (filter P xs))) = (\<exists>x \<in> set xs. P x)"
proof (cases "filter P xs")
  case Nil
  then show ?thesis by (simp add: filter_empty_conv)
next
  case (Cons y ys)
  then have "y \<in> set (filter P xs)" by simp
  then have "y \<in> set xs \<and> P y" by simp
  with Cons show ?thesis by auto
qed

lemma NewREST_hook:
  "backends \<noteq> [] \<Longrightarrow>
   AfterCreate (NewREST s backends) =
     Some (\<lambda>tok. ObserveCall
       (ClusterObserver s
          (map (\<lambda>b. Etcd ''oauthauthorizetokens'' EtcdPrefix b None) backends) 1)
       (ResourceVersion (TokenMeta tok)) 5000000000)"
  by (simp add: NewREST_def watchersFor_map Let_def Second_def)

lemma NewREST_no_hook: "AfterCreate (NewREST s []) = None"
  by (simp add: NewREST_def)

text \<open>
  C7. Without extra backends \<^verbatim>\<open>NewREST\<close> installs no \<^verbatim>\<open>AfterCreate\<close> hook, and nothing is
  waited for after a creation. With at least one, it installs a hook that, for a created
  token, calls \<^verbatim>\<open>ObserveResourceVersion\<close> with the token's resource version and a timeout of
  5 seconds on an observer over one watcher per backend with a required quorum of 1; so the
  creation is declared successful exactly when at least one backend reports a version at or
  past the token's within the 5 seconds.
\<close>

theorem NewREST_AfterCreate:
  "(backends = [] \<longrightarrow>
      AfterCreate (NewREST s backends) = None \<and>
      afterCreate cluster (NewREST s backends) obj = None) \<and>
   (backends \<noteq> [] \<longrightarrow>
      (\<exists>hook. AfterCreate (NewREST s backends) = Some hook \<and>
         (\<forall>tok. hook tok =
            ObserveCall
              (ClusterObserver s
                 (map (\<lambda>b. Etcd ''oauthauthorizetokens'' EtcdPrefix b None) backends) 1)
              (ResourceVersion (TokenMeta tok)) 5000000000)) \<and>
      (afterCreate cluster (NewREST s backends) obj = None) =
        (\<exists>b \<in> set backends. \<exists>delay. cluster b (ResourceVersion (TokenMeta obj)) = Some delay \<and>
           delay \<le> 5000000000))"
proof (intro conjI impI)
  assume "backends = []"
  then show "AfterCreate (NewREST s backends) = None"
    by (simp add: NewREST_no_hook)
next
  assume "backends = []"
  then show "afterCreate cluster (NewREST s backends) obj = None"
    by (simp add: afterCreate_def NewREST_no_hook)
next
  assume "backends \<noteq> []"
  then show "\<exists>hook. AfterCreate (NewREST s backends) = Some hook \<and>
         (\<forall>tok. hook tok =
            ObserveCall
              (ClusterObserver s
                 (map (\<lambda>b. Etcd ''oauthauthorizetokens'' EtcdPrefix b None) backends) 1)
              (ResourceVersion (TokenMeta tok)) 5000000000)"
    by (simp add: NewREST_hook)
next
  assume ne: "backends \<noteq> []"
  have "(afterCreate cluster (NewREST s backends) obj = None) =
      (1 \<le> int (length (filter (reportsInTime cluster (ResourceVersion (TokenMeta obj)) 5000000000)
         backends)))"
    by (simp add: afterCreate_def NewREST_hook [OF ne] ObserveResourceVersion_def comp_def)
  also have "\<dots> = (\<exists>b \<in> set backends. reportsInTime cluster (ResourceVersion (TokenMeta obj)) 5000000000 b)"
    by (rule quorum_one)
  also have "\<dots> = (\<exists>b \<in> set backends. \<exists>delay. cluster b (ResourceVersion (TokenMeta obj)) = Some delay \<and>
           delay \<le> 5000000000)"
    by (auto simp add: reportsInTime_def split: option.splits)
  finally show "(afterCreate cluster (NewREST s backends) obj = None) =
        (\<exists>b \<in> set backends. \<exists>delay. cluster b (ResourceVersion (TokenMeta obj)) = Some delay \<and>
           delay \<le> 5000000000)" .
qed

theorem NewREST_AfterCreate_witness:
  "afterCreate demoCluster (NewREST ''etcd1'' [''etcd1'', ''etcd2'', ''etcd3'']) (newToken ''tok'' ''42'') = None \<and>
   afterCreate demoCluster (NewREST ''etcd1'' [''etcd1'', ''etcd3'']) (newToken ''tok'' ''42'') \<noteq> None \<and>
   AfterCreate (NewREST ''etcd1'' ([] :: string list)) = None \<and>
   afterCreate demoCluster (NewREST ''etcd1'' []) (newToken ''tok'' ''42'') = None"
  using NewREST_AfterCreate [where backends = "[''etcd1'', ''etcd2'', ''etcd3'']" and s = "''etcd1''"
      and cluster = demoCluster and obj = "newToken ''tok'' ''42''"]
    NewREST_AfterCreate [where backends = "[''etcd1'', ''etcd3'']" and s = "''etcd1''"
      and cluster = demoCluster and obj = "newToken ''tok'' ''42''"]
    NewREST_AfterCreate [where backends = "[]" and s = "''etcd1''"
      and cluster = demoCluster and obj = "newToken ''tok'' ''42''"]
  by (auto simp add: demoCluster_def newToken_def Second_def)

end
